theory Spec2Isabelle
  imports Complex_Main "HOL-Library.Sublist" "HOL-Library.AList"
begin

section \<open>types.ts\<close>

text \<open>
  The string enum \<open>Emotion\<close>. At run time a member is its string value, which
  \<open>Emotion_value\<close> gives; \<open>emotionValues\<close> is \<open>Object.values(Emotion)\<close>, in
  declaration order.
\<close>

datatype Emotion = HAPPY | SAD | STRESSED | FOCUSED | TIRED | NEUTRAL | SURPRISED | ANGRY

fun Emotion_value :: "Emotion \<Rightarrow> string" where
  "Emotion_value HAPPY = ''HAPPY''"
| "Emotion_value SAD = ''SAD''"
| "Emotion_value STRESSED = ''STRESSED''"
| "Emotion_value FOCUSED = ''FOCUSED''"
| "Emotion_value TIRED = ''TIRED''"
| "Emotion_value NEUTRAL = ''NEUTRAL''"
| "Emotion_value SURPRISED = ''SURPRISED''"
| "Emotion_value ANGRY = ''ANGRY''"

definition emotionValues :: "string list" where
  "emotionValues =
     map Emotion_value [HAPPY, SAD, STRESSED, FOCUSED, TIRED, NEUTRAL, SURPRISED, ANGRY]"

text \<open>The interface \<open>AnalysisResult\<close>, as declared.\<close>

record AnalysisResult =
  emotion :: Emotion
  environmentAnalysis :: string
  encouragingMessage :: string
  productivityTip :: string


section \<open>JavaScript values and errors\<close>

text \<open>
  What \<open>JSON.parse\<close> returns, and what the code then holds in \<open>result\<close>: a JSON
  value. An array is an object too and takes named properties besides its elements, so
  \<open>JArray\<close> carries them (empty after parsing). An object is its own properties in
  insertion order, each name once.
\<close>

datatype jsval =
    JNull
  | JBool bool
  | JNumber rat
  | JString string
  | JArray "jsval list" "(string \<times> jsval) list"
  | JObject "(string \<times> jsval) list"

datatype js_error = Error string | TypeError string | SyntaxError string

text \<open>
  \<open>getProp v k\<close> is the expression \<open>v.k\<close> for a property name \<open>k\<close> that is neither
  an array index nor \<open>length\<close> and that no built-in prototype defines (the program
  reads \<open>emotion\<close> only): reading from \<open>null\<close> throws a TypeError, a primitive has
  no such property, an object or array yields its own property or \<open>undefined\<close>
  (\<open>None\<close>).
\<close>

fun getProp :: "jsval \<Rightarrow> string \<Rightarrow> js_error + jsval option" where
  "getProp JNull k = Inl (TypeError ''Cannot read properties of null'')"
| "getProp (JBool b) k = Inr None"
| "getProp (JNumber n) k = Inr None"
| "getProp (JString s) k = Inr None"
| "getProp (JArray xs ps) k = Inr (map_of ps k)"
| "getProp (JObject ps) k = Inr (map_of ps k)"

text \<open>
  \<open>setProp v k x\<close> is the assignment \<open>v.k = x\<close>. The file is an ECMAScript module
  (it has \<open>import\<close> and \<open>export\<close>), so its code is strict: creating a property on a
  primitive throws a TypeError. An object or array stores the property, in place when
  it is there already and at the end otherwise.
\<close>

fun setProp :: "jsval \<Rightarrow> string \<Rightarrow> jsval \<Rightarrow> js_error + jsval" where
  "setProp JNull k x = Inl (TypeError ''Cannot set properties of null'')"
| "setProp (JBool b) k x = Inl (TypeError ''Cannot create property on boolean'')"
| "setProp (JNumber n) k x = Inl (TypeError ''Cannot create property on number'')"
| "setProp (JString s) k x = Inl (TypeError ''Cannot create property on string'')"
| "setProp (JArray xs ps) k x = Inr (JArray xs (AList.update k x ps))"
| "setProp (JObject ps) k x = Inr (JObject (AList.update k x ps))"

text \<open>
  \<open>emotionValues.includes(x)\<close>: \<open>x\<close> is \<open>undefined\<close> or a value, compared with the
  eight strings by SameValueZero, so only an equal string is found.
\<close>

fun includes_value :: "string list \<Rightarrow> jsval option \<Rightarrow> bool" where
  "includes_value vs (Some (JString s)) = (s \<in> set vs)"
| "includes_value vs x = False"

text \<open>
  The conversion of a value to a string, as a template literal does it, kept as the
  error it throws, if any (the string itself only goes to the console). A primitive
  converts. An object converts through \<open>Object.prototype.toString\<close>, unless it has an
  own property \<open>toString\<close>: a parsed value is never callable, \<open>valueOf\<close> gives no
  primitive either, and the conversion throws a TypeError. An array converts through
  \<open>join\<close>, which converts each element that is not \<open>null\<close>, unless it has an own
  property \<open>toString\<close> (a TypeError again) or an own property \<open>join\<close> (then
  \<open>Object.prototype.toString\<close> is used).
\<close>

fun ToString_error :: "jsval \<Rightarrow> js_error option" where
  "ToString_error JNull = None"
| "ToString_error (JBool b) = None"
| "ToString_error (JNumber n) = None"
| "ToString_error (JString s) = None"
| "ToString_error (JArray xs ps) =
     (if ''toString'' \<in> set (map fst ps)
      then Some (TypeError ''Cannot convert object to primitive value'')
      else if ''join'' \<in> set (map fst ps) then None
      else (case filter (\<lambda>e. e \<noteq> None) (map ToString_error xs) of
              [] \<Rightarrow> None
            | e # es \<Rightarrow> e))"
| "ToString_error (JObject ps) =
     (if ''toString'' \<in> set (map fst ps)
      then Some (TypeError ''Cannot convert object to primitive value'')
      else None)"

text \<open>
  \<open>String.prototype.trim\<close> on the characters a \<open>char\<close> can hold: tab, line feed,
  vertical tab, form feed, carriage return, space and no-break space.
\<close>

definition is_white_space :: "char \<Rightarrow> bool" where
  "is_white_space c =
     (c \<in> {CHR 0x09, CHR 0x0A, CHR 0x0B, CHR 0x0C, CHR 0x0D, CHR 0x20, CHR 0xA0})"

definition trim :: "string \<Rightarrow> string" where
  "trim s = rev (dropWhile is_white_space (rev (dropWhile is_white_space s)))"


section \<open>services/geminiService.ts\<close>

text \<open>
  The request \<open>analyzeImage\<close> builds. \<open>analysisSchema\<close> is kept as the names of its
  properties, the enum of \<open>emotion\<close> and the \<open>required\<close> list: it is sent to the
  remote model and never consulted by the code afterwards.
\<close>

record schema =
  properties :: "string list"
  emotion_enum :: "string list"
  required :: "string list"

definition analysisSchema :: schema where
  "analysisSchema =
     \<lparr> properties = [''emotion'', ''environmentAnalysis'', ''encouragingMessage'', ''productivityTip''],
       emotion_enum = emotionValues,
       required = [''emotion'', ''environmentAnalysis'', ''encouragingMessage'', ''productivityTip''] \<rparr>"

record request =
  model :: string
  mimeType :: string
  data :: string
  responseMimeType :: string
  responseSchema :: schema

definition mk_request :: "string \<Rightarrow> request" where
  "mk_request base64Image =
     \<lparr> model = ''gemini-2.5-flash'', mimeType = ''image/jpeg'', data = base64Image,
       responseMimeType = ''application/json'', responseSchema = analysisSchema \<rparr>"

text \<open>
  The two things \<open>analyzeImage\<close> calls and the repository does not define:
  \<open>ai.models.generateContent\<close>, which rejects with an error or resolves to a response
  whose \<open>text\<close> is a string or \<open>undefined\<close>, and \<open>JSON.parse\<close>, which throws or
  returns a value. Both are parameters of the model.
\<close>

record response =
  response_text :: "string option"

record platform =
  generateContent :: "request \<Rightarrow> js_error + response"
  JSON_parse :: "string \<Rightarrow> js_error + jsval"

text \<open>
  The \<open>try\<close> block of \<open>analyzeImage\<close>: every statement that can throw is a branch
  returning \<open>Inl\<close> with the error as it was thrown. The argument of \<open>console.warn\<close>
  is a template literal that converts \<open>result.emotion\<close> (\<open>undefined\<close> converts) before
  \<open>NEUTRAL\<close> is stored.
\<close>

definition analyzeImage_try :: "platform \<Rightarrow> string \<Rightarrow> js_error + jsval" where
  "analyzeImage_try p base64Image =
     (case generateContent p (mk_request base64Image) of
        Inl e \<Rightarrow> Inl e
      | Inr response \<Rightarrow>
          (case response_text response of
             None \<Rightarrow> Inl (TypeError ''Cannot read properties of undefined'')
           | Some t \<Rightarrow>
               (case JSON_parse p (trim t) of
                  Inl e \<Rightarrow> Inl e
                | Inr result \<Rightarrow>
                    (case getProp result ''emotion'' of
                       Inl e \<Rightarrow> Inl e
                     | Inr em \<Rightarrow>
                         if \<not> includes_value emotionValues em
                         then (case (case em of None \<Rightarrow> None | Some x \<Rightarrow> ToString_error x) of
                                 Some e \<Rightarrow> Inl e
                               | None \<Rightarrow>
                                   setProp result ''emotion'' (JString (Emotion_value NEUTRAL)))
                         else Inr result))))"

definition failure_message :: string where
  "failure_message =
     ''Failed to get analysis from Gemini API. Please check your API key and network connection.''"

text \<open>\<open>analyzeImage\<close>: the \<open>catch\<close> clause replaces whatever was thrown.\<close>

definition analyzeImage :: "platform \<Rightarrow> string \<Rightarrow> js_error + jsval" where
  "analyzeImage p base64Image =
     (case analyzeImage_try p base64Image of
        Inl e \<Rightarrow> Inl (Error failure_message)
      | Inr result \<Rightarrow> Inr result)"

text \<open>
  The cast \<open>result as AnalysisResult\<close> checks nothing. \<open>as_AnalysisResult\<close> says when a
  value is of the interface: \<open>emotion\<close> is the string of a member of the enum and the
  other three properties are strings; it then gives the value as the record.
\<close>

definition Emotion_of :: "string \<Rightarrow> Emotion option" where
  "Emotion_of s =
     find (\<lambda>e. Emotion_value e = s) [HAPPY, SAD, STRESSED, FOCUSED, TIRED, NEUTRAL, SURPRISED, ANGRY]"

definition string_prop :: "jsval \<Rightarrow> string \<Rightarrow> string option" where
  "string_prop v k = (case getProp v k of Inr (Some (JString s)) \<Rightarrow> Some s | _ \<Rightarrow> None)"

definition as_AnalysisResult :: "jsval \<Rightarrow> AnalysisResult option" where
  "as_AnalysisResult v =
     (case (string_prop v ''emotion'', string_prop v ''environmentAnalysis'',
            string_prop v ''encouragingMessage'', string_prop v ''productivityTip'') of
        (Some e, Some a, Some m, Some t) \<Rightarrow>
          (case Emotion_of e of
             None \<Rightarrow> None
           | Some em \<Rightarrow>
               Some \<lparr> emotion = em, environmentAnalysis = a, encouragingMessage = m,
                      productivityTip = t \<rparr>)
      | _ \<Rightarrow> None)"

text \<open>
  Platforms on which the model is run at concrete inputs: the remote model answers the
  text \<open>t\<close>, for which \<open>JSON.parse\<close> gives \<open>parsed\<close>; or the request is rejected
  with \<open>e\<close>.
\<close>

definition replying :: "string \<Rightarrow> js_error + jsval \<Rightarrow> platform" where
  "replying t parsed =
     \<lparr> generateContent = (\<lambda>req. Inr \<lparr> response_text = Some t \<rparr>),
       JSON_parse = (\<lambda>s. if s = trim t then parsed else Inl (SyntaxError ''Unexpected token'')) \<rparr>"

definition rejecting :: "js_error \<Rightarrow> platform" where
  "rejecting e =
     \<lparr> generateContent = (\<lambda>req. Inl e),
       JSON_parse = (\<lambda>s. Inl (SyntaxError ''Unexpected token'')) \<rparr>"


section \<open>hooks/useSpeechSynthesis.ts\<close>

text \<open>\<open>String.prototype.startsWith\<close> and \<open>String.prototype.includes\<close>.\<close>

fun String_startsWith :: "string \<Rightarrow> string \<Rightarrow> bool" where
  "String_startsWith s [] = True"
| "String_startsWith [] (c # cs) = False"
| "String_startsWith (x # xs) (c # cs) = (x = c \<and> String_startsWith xs cs)"

fun String_includes :: "string \<Rightarrow> string \<Rightarrow> bool" where
  "String_includes [] sub = (sub = [])"
| "String_includes (x # xs) sub = (String_startsWith (x # xs) sub \<or> String_includes xs sub)"

record SpeechSynthesisVoice =
  name :: string
  lang :: string

record SpeechSynthesisUtterance =
  utterance_text :: string
  voice :: "SpeechSynthesisVoice option"
  pitch :: nat
  rate :: nat
  volume :: nat

text \<open>
  The hook's two state variables, and \<open>window.speechSynthesis\<close>: whether it is defined,
  and the calls made on it so far.
\<close>

datatype synth_call = Cancel | Speak SpeechSynthesisUtterance

record speech =
  voices :: "SpeechSynthesisVoice list"
  speaking :: bool
  synth_defined :: bool
  synth_calls :: "synth_call list"

text \<open>
  \<open>speak\<close> is \<open>useCallback(..., [voices, speaking])\<close>: the function of one render reads
  the \<open>voices\<close> and \<open>speaking\<close> of that render.
\<close>

record speak_closure =
  c_voices :: "SpeechSynthesisVoice list"
  c_speaking :: bool

definition render_speak :: "speech \<Rightarrow> speak_closure" where
  "render_speak w = \<lparr> c_voices = voices w, c_speaking = speaking w \<rparr>"

text \<open>
  The expression \<open>find(...) || find(...) || find(...)\<close>: \<open>Array.prototype.find\<close> gives
  the first element that satisfies the test or \<open>undefined\<close>, and a voice object is
  truthy.
\<close>

definition preferredVoice :: "SpeechSynthesisVoice list \<Rightarrow> SpeechSynthesisVoice option" where
  "preferredVoice vs =
     (case find (\<lambda>v. String_includes (name v) ''Google'' \<and> String_startsWith (lang v) ''en'') vs of
        Some v \<Rightarrow> Some v
      | None \<Rightarrow>
          (case find (\<lambda>v. String_startsWith (lang v) ''en-US'') vs of
             Some v \<Rightarrow> Some v
           | None \<Rightarrow> find (\<lambda>v. String_startsWith (lang v) ''en'') vs))"

definition new_utterance :: "string \<Rightarrow> SpeechSynthesisUtterance" where
  "new_utterance t = \<lparr> utterance_text = t, voice = None, pitch = 1, rate = 1, volume = 1 \<rparr>"

definition speak :: "speak_closure \<Rightarrow> string \<Rightarrow> speech \<Rightarrow> speech" where
  "speak c t w =
     (if t = [] \<or> \<not> synth_defined w then w
      else
        let w1 = (if c_speaking c then w\<lparr> synth_calls := synth_calls w @ [Cancel] \<rparr> else w);
            utterance = new_utterance t;
            utterance1 = (case preferredVoice (c_voices c) of
                            Some v \<Rightarrow> utterance\<lparr> voice := Some v \<rparr>
                          | None \<Rightarrow> utterance);
            utterance2 = utterance1\<lparr> pitch := 1, rate := 1, volume := 1 \<rparr>
        in w1\<lparr> synth_calls := synth_calls w1 @ [Speak utterance2] \<rparr>)"

text \<open>
  The handlers: \<open>voiceschanged\<close> stores the voices, and an utterance's \<open>onstart\<close>,
  \<open>onend\<close> and \<open>onerror\<close> set the flag.
\<close>

definition handleVoicesChanged :: "SpeechSynthesisVoice list \<Rightarrow> speech \<Rightarrow> speech" where
  "handleVoicesChanged availableVoices w = w\<lparr> voices := availableVoices \<rparr>"

definition onstart :: "speech \<Rightarrow> speech" where
  "onstart w = w\<lparr> speaking := True \<rparr>"

definition onend :: "speech \<Rightarrow> speech" where
  "onend w = w\<lparr> speaking := False \<rparr>"

text \<open>
  The claim's words for the voice tests: a name contains \<open>Google\<close>, a language starts
  with a tag.
\<close>

definition contains_Google :: "SpeechSynthesisVoice \<Rightarrow> bool" where
  "contains_Google v = sublist ''Google'' (name v)"

definition lang_starts :: "string \<Rightarrow> SpeechSynthesisVoice \<Rightarrow> bool" where
  "lang_starts tag v = prefix tag (lang v)"

text \<open>\<open>first_with P vs v\<close>: \<open>v\<close> is the first voice of \<open>vs\<close> that satisfies \<open>P\<close>.\<close>

definition first_with ::
  "(SpeechSynthesisVoice \<Rightarrow> bool) \<Rightarrow> SpeechSynthesisVoice list \<Rightarrow> SpeechSynthesisVoice \<Rightarrow> bool" where
  "first_with P vs v = (\<exists>i < length vs. vs ! i = v \<and> P v \<and> (\<forall>j < i. \<not> P (vs ! j)))"


section \<open>App.tsx: the tables\<close>

text \<open>
  An icon is a string of characters outside ASCII; it is kept as the code points the
  source file holds.
\<close>

record theme =
  gradient :: string
  icon :: "nat list"
  title :: string

definition emotionConfig :: "(Emotion \<times> theme) list" where
  "emotionConfig =
     [(HAPPY, \<lparr> gradient = ''from-yellow-400 via-orange-500 to-red-500'',
                icon = [0xF8FF, 0xFC, 0xF2, 0xE4], title = ''Radiating Joy!'' \<rparr>),
      (SAD, \<lparr> gradient = ''from-blue-400 via-indigo-500 to-purple-600'',
              icon = [0xF8FF, 0xFC, 0xF2, 0xA2], title = ''Feeling Blue'' \<rparr>),
      (STRESSED, \<lparr> gradient = ''from-red-500 via-pink-600 to-purple-700'',
                   icon = [0xF8FF, 0xFC, 0xF2, 0xB4], title = ''Feeling Stressed'' \<rparr>),
      (FOCUSED, \<lparr> gradient = ''from-green-400 via-teal-500 to-cyan-600'',
                  icon = [0xF8FF, 0xFC, 0xA7, 0xEE], title = ''In The Zone'' \<rparr>),
      (TIRED, \<lparr> gradient = ''from-gray-600 via-slate-700 to-zinc-800'',
                icon = [0xF8FF, 0xFC, 0xF2, 0xA5], title = ''Feeling Tired'' \<rparr>),
      (NEUTRAL, \<lparr> gradient = ''from-slate-500 via-gray-600 to-slate-700'',
                  icon = [0xF8FF, 0xFC, 0xF2, 0xEA], title = ''Calm & Collected'' \<rparr>),
      (SURPRISED, \<lparr> gradient = ''from-pink-400 via-purple-500 to-indigo-500'',
                    icon = [0xF8FF, 0xFC, 0xF2, 0x2264], title = ''Surprised!'' \<rparr>),
      (ANGRY, \<lparr> gradient = ''from-red-600 via-rose-700 to-red-800'',
                icon = [0xF8FF, 0xFC, 0xF2, 0x2020], title = ''Feeling Angry'' \<rparr>)]"

definition emotionVisualEffects :: "(Emotion \<times> string) list" where
  "emotionVisualEffects =
     [(HAPPY, ''border-yellow-300/50 animate-pulse-slow''),
      (FOCUSED, ''border-cyan-400/70 shadow-lg shadow-cyan-400/50''),
      (SAD, ''border-blue-400/30''),
      (STRESSED, ''border-red-500/60 animate-shake-fast''),
      (ANGRY, ''border-red-600/80 animate-shake-fast''),
      (TIRED, ''border-transparent vignette''),
      (SURPRISED, ''border-indigo-400/80 animate-ping-once''),
      (NEUTRAL, ''border-transparent'')]"

definition emotionFilterEffects :: "(Emotion \<times> string) list" where
  "emotionFilterEffects =
     [(SAD, ''saturate-[.75] brightness-90''),
      (TIRED, ''brightness-90'')]"


section \<open>App.tsx: the component\<close>

text \<open>
  What a \<open>captureAndAnalyze\<close> has captured. It is
  \<open>useCallback(..., [isLoading, speak, lastSpokenMessage])\<close>: the function of one
  render reads the \<open>isLoading\<close> and \<open>lastSpokenMessage\<close> of that render, whatever the
  state is when it runs.
\<close>

record closure =
  c_isLoading :: bool
  c_lastSpokenMessage :: string

text \<open>
  An interval timer as \<open>setInterval\<close> registers it: the delay in milliseconds, and
  the \<open>captureAndAnalyze\<close> its callback calls.
\<close>

record timer =
  delay :: nat
  callback :: closure

text \<open>
  The component's state variables and refs, and the part of the browser it acts on:
  the interval timers that are set, by id, the calls of \<open>analyzeImage\<close> that are
  awaited (each with the \<open>captureAndAnalyze\<close> that awaits it), the calls of
  \<open>getUserMedia\<close> that are awaited, the frames snapshot so far and the texts
  \<open>speak\<close> was called with. The component holds a result at its declared type
  \<open>AnalysisResult\<close>. \<open>effectDeps\<close> is
  the \<open>[isAnalyzing]\<close> of the effect's last run, which React keeps. A ref to an element
  is whether the element is there; \<open>streamRef\<close> and \<open>srcObject\<close> are whether a stream
  is held.
\<close>

record app =
  isAnalyzing :: bool
  isLoading :: bool
  error :: "string option"
  analysisResult :: "AnalysisResult option"
  lastSpokenMessage :: string
  surpriseKey :: nat
  videoRef :: bool
  canvasRef :: bool
  intervalRef :: "nat option"
  streamRef :: bool
  srcObject :: bool
  effectDeps :: bool
  mediaDevices :: bool
  timers :: "(nat \<times> timer) list"
  nextTimerId :: nat
  awaited :: "(nat \<times> closure) list"
  nextRequestId :: nat
  cameraRequests :: nat
  captured :: "string list"
  spoken :: "string list"

text \<open>The derived constants of a render (lines 93 to 96).\<close>

definition currentEmotion :: "app \<Rightarrow> Emotion" where
  "currentEmotion w =
     (case analysisResult w of
        None \<Rightarrow> NEUTRAL
      | Some r \<Rightarrow> if Emotion_value (emotion r) = [] then NEUTRAL else emotion r)"

text \<open>
  \<open>emotionConfig[currentEmotion]\<close> is destructured: were the entry missing, the render
  would throw, which is \<open>None\<close> here.
\<close>

definition current_theme :: "app \<Rightarrow> theme option" where
  "current_theme w = map_of emotionConfig (currentEmotion w)"

definition visualEffectClass :: "app \<Rightarrow> string option" where
  "visualEffectClass w =
     (if isAnalyzing w \<and> analysisResult w \<noteq> None
      then map_of emotionVisualEffects (currentEmotion w)
      else map_of emotionVisualEffects NEUTRAL)"

definition filterEffectClass :: "app \<Rightarrow> string" where
  "filterEffectClass w =
     (if isAnalyzing w \<and> analysisResult w \<noteq> None
      then (case map_of emotionFilterEffects (currentEmotion w) of None \<Rightarrow> [] | Some f \<Rightarrow> f)
      else [])"

definition startWebcam :: "app \<Rightarrow> app" where
  "startWebcam w =
     (if mediaDevices w then w\<lparr> cameraRequests := cameraRequests w + 1 \<rparr>
      else w\<lparr> error := Some ''Your browser does not support camera access.'' \<rparr>)"

text \<open>The two ways the awaited \<open>getUserMedia\<close> ends.\<close>

definition startWebcam_resolved :: "app \<Rightarrow> app" where
  "startWebcam_resolved w =
     (if videoRef w then w\<lparr> srcObject := True, streamRef := True \<rparr> else w)"

definition startWebcam_rejected :: "app \<Rightarrow> app" where
  "startWebcam_rejected w = w\<lparr> error := Some ''Could not access camera. Please check permissions.'' \<rparr>"

definition stopWebcam :: "app \<Rightarrow> app" where
  "stopWebcam w =
     (let w1 = (if streamRef w then w\<lparr> streamRef := False \<rparr> else w)
      in if videoRef w1 then w1\<lparr> srcObject := False \<rparr> else w1)"

fun message :: "js_error \<Rightarrow> string" where
  "message (Error m) = m"
| "message (TypeError m) = m"
| "message (SyntaxError m) = m"

text \<open>
  \<open>captureAndAnalyze\<close> up to its \<open>await\<close>: \<open>c\<close> is what the function captured,
  \<open>context\<close> whether \<open>getContext('2d')\<close> gave a context, \<open>base64Image\<close> the encoded
  frame. With a context it snapshots the frame and awaits \<open>analyzeImage\<close>; without
  one it runs to its end.
\<close>

definition captureAndAnalyze :: "closure \<Rightarrow> bool \<Rightarrow> string \<Rightarrow> app \<Rightarrow> app" where
  "captureAndAnalyze c context base64Image w =
     (if c_isLoading c \<or> \<not> videoRef w \<or> \<not> canvasRef w then w
      else
        let w1 = w\<lparr> isLoading := True, error := None \<rparr>
        in if context
           then w1\<lparr> captured := captured w1 @ [base64Image],
                    awaited := awaited w1 @ [(nextRequestId w1, c)],
                    nextRequestId := nextRequestId w1 + 1 \<rparr>
           else w1\<lparr> isLoading := False \<rparr>)"

text \<open>
  The \<open>try\<close> statement once \<open>analyzeImage\<close> has settled (lines 141 to 154):
  \<open>outcome\<close> is the result, or the error it threw; \<open>now\<close> is \<open>Date.now()\<close>.
\<close>

definition analysis_settled :: "closure \<Rightarrow> nat \<Rightarrow> js_error + AnalysisResult \<Rightarrow> app \<Rightarrow> app" where
  "analysis_settled c now outcome w =
     (case outcome of
        Inr result \<Rightarrow>
          let w1 = w\<lparr> analysisResult := Some result \<rparr>;
              w2 = (if emotion result = SURPRISED then w1\<lparr> surpriseKey := now \<rparr> else w1)
          in if encouragingMessage result \<noteq> c_lastSpokenMessage c
             then w2\<lparr> spoken := spoken w2 @ [encouragingMessage result],
                      lastSpokenMessage := encouragingMessage result \<rparr>
             else w2
      | Inl err \<Rightarrow> w\<lparr> error := Some (message err), isAnalyzing := False \<rparr>)"

text \<open>\<open>captureAndAnalyze\<close> from its \<open>await\<close> to its end (line 157).\<close>

definition captureAndAnalyze_resumed :: "closure \<Rightarrow> nat \<Rightarrow> js_error + AnalysisResult \<Rightarrow> app \<Rightarrow> app" where
  "captureAndAnalyze_resumed c now outcome w = (analysis_settled c now outcome w)\<lparr> isLoading := False \<rparr>"

text \<open>
  The effect on \<open>[isAnalyzing]\<close>. Its body sets an interval whose callback calls the
  \<open>captureAndAnalyze\<close> of the render the effect belongs to; its cleanup and its other
  branch clear the interval that \<open>intervalRef\<close> holds, a timer id being truthy when it
  is not 0.
\<close>

definition clearInterval :: "nat \<Rightarrow> app \<Rightarrow> app" where
  "clearInterval i w = w\<lparr> timers := AList.delete i (timers w) \<rparr>"

definition effect_body :: "app \<Rightarrow> app" where
  "effect_body w =
     (if isAnalyzing w then
        let w1 = startWebcam w;
            c = \<lparr> c_isLoading = isLoading w1, c_lastSpokenMessage = lastSpokenMessage w1 \<rparr>
        in w1\<lparr> timers := timers w1 @ [(nextTimerId w1, \<lparr> delay = 5000, callback = c \<rparr>)],
               intervalRef := Some (nextTimerId w1),
               nextTimerId := nextTimerId w1 + 1 \<rparr>
      else
        let w1 = stopWebcam w
        in (case intervalRef w1 of
              None \<Rightarrow> w1
            | Some i \<Rightarrow> if i \<noteq> 0 then (clearInterval i w1)\<lparr> intervalRef := None \<rparr> else w1))"

definition effect_cleanup :: "app \<Rightarrow> app" where
  "effect_cleanup w =
     (let w1 = stopWebcam w
      in (case intervalRef w1 of
            None \<Rightarrow> w1
          | Some i \<Rightarrow> if i \<noteq> 0 then clearInterval i w1 else w1))"

text \<open>
  After a handler has run, React renders the new state and runs the effect when
  \<open>isAnalyzing\<close> differs from its value at the effect's last run: the cleanup of that
  run first, then the body.
\<close>

definition commit :: "app \<Rightarrow> app" where
  "commit w =
     (if isAnalyzing w \<noteq> effectDeps w
      then (effect_body (effect_cleanup w))\<lparr> effectDeps := isAnalyzing w \<rparr>
      else w)"

definition handleStart :: "app \<Rightarrow> app" where
  "handleStart w = w\<lparr> error := None, analysisResult := None, isAnalyzing := True \<rparr>"

definition handleStop :: "app \<Rightarrow> app" where
  "handleStop w = w\<lparr> isAnalyzing := False \<rparr>"

text \<open>
  What can happen to the mounted component: a click on the button that is shown (Start
  Analysis when not analysing, Stop Analysis otherwise), a tick of an interval that is
  set, the settling of an awaited \<open>analyzeImage\<close> or \<open>getUserMedia\<close>.
\<close>

datatype event =
    ClickStart
  | ClickStop
  | Tick nat bool string
  | Settled nat nat "js_error + AnalysisResult"
  | CameraResolved
  | CameraRejected

fun step :: "event \<Rightarrow> app \<Rightarrow> app" where
  "step ClickStart w = (if isAnalyzing w then w else commit (handleStart w))"
| "step ClickStop w = (if isAnalyzing w then commit (handleStop w) else w)"
| "step (Tick i context base64Image) w =
     (case map_of (timers w) i of
        None \<Rightarrow> w
      | Some t \<Rightarrow> commit (captureAndAnalyze (callback t) context base64Image w))"
| "step (Settled r now outcome) w =
     (case map_of (awaited w) r of
        None \<Rightarrow> w
      | Some c \<Rightarrow>
          commit (captureAndAnalyze_resumed c now outcome (w\<lparr> awaited := AList.delete r (awaited w) \<rparr>)))"
| "step CameraResolved w =
     (if cameraRequests w = 0 then w
      else commit (startWebcam_resolved (w\<lparr> cameraRequests := cameraRequests w - 1 \<rparr>)))"
| "step CameraRejected w =
     (if cameraRequests w = 0 then w
      else commit (startWebcam_rejected (w\<lparr> cameraRequests := cameraRequests w - 1 \<rparr>)))"

fun run :: "event list \<Rightarrow> app \<Rightarrow> app" where
  "run [] w = w"
| "run (e # es) w = run es (step e w)"

text \<open>
  The component once mounted: the initial state, both elements there, the effect run
  once with \<open>isAnalyzing\<close> false. \<open>md\<close> is whether the browser has
  \<open>navigator.mediaDevices.getUserMedia\<close>.
\<close>

definition mounted :: "bool \<Rightarrow> app" where
  "mounted md =
     \<lparr> isAnalyzing = False, isLoading = False, error = None, analysisResult = None,
       lastSpokenMessage = [], surpriseKey = 0, videoRef = True, canvasRef = True,
       intervalRef = None, streamRef = False, srcObject = False, effectDeps = False,
       mediaDevices = md, timers = [], nextTimerId = 1, awaited = [], nextRequestId = 1,
       cameraRequests = 0, captured = [], spoken = [] \<rparr>"

text \<open>
  What holds of the timers after every event: the effect has run for the current
  \<open>isAnalyzing\<close>, the only interval set is the one \<open>intervalRef\<close> holds, there
  being one exactly while analysing, its delay is 5000 ms, and both elements are there.
\<close>

definition timer_inv :: "app \<Rightarrow> bool" where
  "timer_inv w =
     (effectDeps w = isAnalyzing w \<and> 0 < nextTimerId w \<and>
      (case intervalRef w of
         None \<Rightarrow> \<not> isAnalyzing w \<and> timers w = []
       | Some i \<Rightarrow> isAnalyzing w \<and> 0 < i \<and> i < nextTimerId w \<and> map fst (timers w) = [i]) \<and>
      list_all (\<lambda>(i, t). delay t = 5000) (timers w) \<and> videoRef w \<and> canvasRef w)"

text \<open>Inputs on which the model is run.\<close>

definition happy_result :: AnalysisResult where
  "happy_result =
     \<lparr> emotion = HAPPY, environmentAnalysis = ''Bright room'',
       encouragingMessage = ''Keep smiling!'', productivityTip = ''Take a short walk'' \<rparr>"

definition sad_result :: AnalysisResult where
  "sad_result =
     \<lparr> emotion = SAD, environmentAnalysis = ''Dim room'',
       encouragingMessage = ''Better days are coming.'', productivityTip = ''Open the curtains'' \<rparr>"

text \<open>Analysis was started and the first tick's call of \<open>analyzeImage\<close> is awaited.\<close>

definition first_call_awaited :: app where
  "first_call_awaited = run [ClickStart, Tick 1 True ''frame1''] (mounted True)"


text \<open>Answers of the remote model, with what \<open>JSON.parse\<close> makes of them.\<close>

definition happy_only_reply :: platform where
  \<open>happy_only_reply = replying ''{"emotion":"HAPPY"}'' (Inr (JObject [(''emotion'', JString ''HAPPY'')]))\<close>

definition empty_object_reply :: platform where
  \<open>empty_object_reply = replying ''{}'' (Inr (JObject []))\<close>


definition full_text :: string where
  \<open>full_text =
     ''{"emotion":"SAD","environmentAnalysis":"Dim room","encouragingMessage":"Better days are coming.","productivityTip":"Open the curtains"} ''\<close>

definition full_reply :: platform where
  \<open>full_reply =
     replying full_text
       (Inr (JObject [(''emotion'', JString ''SAD''), (''environmentAnalysis'', JString ''Dim room''),
                      (''encouragingMessage'', JString ''Better days are coming.''),
                      (''productivityTip'', JString ''Open the curtains'')]))\<close>


text \<open>Voices a browser may offer, and a hook state in which an utterance is being spoken.\<close>

definition sample_voices :: "SpeechSynthesisVoice list" where
  "sample_voices =
     [\<lparr> name = ''Samantha'', lang = ''en-US'' \<rparr>,
      \<lparr> name = ''Google Deutsch'', lang = ''de-DE'' \<rparr>,
      \<lparr> name = ''Google UK English Female'', lang = ''en-GB'' \<rparr>,
      \<lparr> name = ''Google US English'', lang = ''en-US'' \<rparr>]"

definition speaking_now :: speech where
  "speaking_now =
     \<lparr> voices = sample_voices, speaking = True, synth_defined = True,
       synth_calls = [Speak (new_utterance ''Keep smiling!'')] \<rparr>"

text \<open>
  The first call returned \<open>happy_result\<close>, which was spoken; and then the second
  tick's call is awaited.
\<close>

definition happy_spoken :: app where
  "happy_spoken =
     run [ClickStart, Tick 1 True ''frame1'', Settled 1 100 (Inr happy_result)] (mounted True)"

definition happy_shown :: app where
  "happy_shown = run [Tick 1 True ''frame2''] happy_spoken"

text \<open>The first call returned \<open>sad_result\<close>; and analysis was then stopped.\<close>

definition sad_shown :: app where
  "sad_shown = run [Settled 1 100 (Inr sad_result)] first_call_awaited"

definition sad_stopped :: app where
  "sad_stopped = run [ClickStop] sad_shown"


section \<open>The analysis client\<close>

lemma includes_value_iff:
  "includes_value vs x \<longleftrightarrow> (\<exists>s. x = Some (JString s) \<and> s \<in> set vs)"
  by (cases "(vs, x)" rule: includes_value.cases) auto

lemma emotionValues_iff: "s \<in> set emotionValues \<longleftrightarrow> (\<exists>e. s = Emotion_value e)"
proof
  assume "s \<in> set emotionValues"
  then have "s \<in> Emotion_value ` set [HAPPY, SAD, STRESSED, FOCUSED, TIRED, NEUTRAL, SURPRISED, ANGRY]"
    unfolding emotionValues_def set_map .
  then show "\<exists>e. s = Emotion_value e" by blast
next
  assume "\<exists>e. s = Emotion_value e"
  then obtain e where "s = Emotion_value e" ..
  then show "s \<in> set emotionValues" by (cases e) (simp_all add: emotionValues_def)
qed

lemma Emotion_of_value: "Emotion_of (Emotion_value e) = Some e"
  by (cases e) (simp_all add: Emotion_of_def)

lemma getProp_setProp_same:
  "setProp v k x = Inr r \<Longrightarrow> getProp r k = Inr (Some x)"
  by (cases v) (auto simp: update_conv')

lemma getProp_setProp_other:
  "setProp v k x = Inr r \<Longrightarrow> k' \<noteq> k \<Longrightarrow> getProp r k' = getProp v k'"
  by (cases v) (auto simp: update_conv')

lemma setProp_defined:
  "getProp v k = Inr (Some y) \<Longrightarrow> \<exists>r. setProp v k x = Inr r"
  by (cases v) auto

text \<open>How the try block returns: the parsed value as it is, or with emotion stored.\<close>

lemma analyzeImage_try_Inr:
  assumes "analyzeImage_try p img = Inr r"
  obtains resp t v em where
    "generateContent p (mk_request img) = Inr resp"
    "response_text resp = Some t"
    "JSON_parse p (trim t) = Inr v"
    "getProp v ''emotion'' = Inr em"
    "if includes_value emotionValues em then r = v
     else setProp v ''emotion'' (JString (Emotion_value NEUTRAL)) = Inr r"
  using assms unfolding analyzeImage_try_def
  by (auto split: sum.splits option.splits if_splits)

lemma analyzeImage_Inr: "analyzeImage p img = Inr r \<longleftrightarrow> analyzeImage_try p img = Inr r"
  by (simp add: analyzeImage_def split: sum.splits)

lemma analyzeImage_Inl:
  "analyzeImage p img = Inl e \<longleftrightarrow> (e = Error failure_message \<and> (\<exists>e'. analyzeImage_try p img = Inl e'))"
  by (auto simp add: analyzeImage_def split: sum.splits)

lemma analyzeImage_emotion:
  assumes "analyzeImage p img = Inr r"
  shows "\<exists>e. getProp r ''emotion'' = Inr (Some (JString (Emotion_value e)))"
proof -
  from assms have "analyzeImage_try p img = Inr r" by (simp add: analyzeImage_Inr)
  then obtain v em where em: "getProp v ''emotion'' = Inr em"
    and r: "if includes_value emotionValues em then r = v
            else setProp v ''emotion'' (JString (Emotion_value NEUTRAL)) = Inr r"
    by (rule analyzeImage_try_Inr)
  show ?thesis
  proof (cases "includes_value emotionValues em")
    case True
    with em r show ?thesis by (auto simp: includes_value_iff emotionValues_iff)
  next
    case False
    with r have "getProp r ''emotion'' = Inr (Some (JString (Emotion_value NEUTRAL)))"
      by (simp add: getProp_setProp_same)
    then show ?thesis by blast
  qed
qed

text \<open>A returned value has the parsed answer's properties, but for \<open>emotion\<close>.\<close>

lemma analyzeImage_other_props:
  assumes "analyzeImage p img = Inr r"
  obtains resp t v where
    "generateContent p (mk_request img) = Inr resp" "response_text resp = Some t"
    "JSON_parse p (trim t) = Inr v"
    "\<forall>k. k \<noteq> ''emotion'' \<longrightarrow> getProp r k = getProp v k"
proof -
  from assms have "analyzeImage_try p img = Inr r" by (simp add: analyzeImage_Inr)
  then obtain resp t v em where
    answer: "generateContent p (mk_request img) = Inr resp" "response_text resp = Some t"
      "JSON_parse p (trim t) = Inr v"
    and r: "if includes_value emotionValues em then r = v
            else setProp v ''emotion'' (JString (Emotion_value NEUTRAL)) = Inr r"
    by (rule analyzeImage_try_Inr)
  have "getProp r k = getProp v k" if "k \<noteq> ''emotion''" for k
  proof (cases "includes_value emotionValues em")
    case True
    with r show ?thesis by simp
  next
    case False
    with r that show ?thesis by (simp add: getProp_setProp_other)
  qed
  with answer that show ?thesis by blast
qed

text \<open>A string as \<open>emotion\<close>: a member's string is kept, any other is replaced.\<close>

lemma analyzeImage_valid_emotion:
  assumes "generateContent p (mk_request img) = Inr resp" "response_text resp = Some t"
    "JSON_parse p (trim t) = Inr v" "getProp v ''emotion'' = Inr (Some (JString s))"
    "s \<in> set emotionValues"
  shows "analyzeImage p img = Inr v"
  using assms by (simp add: analyzeImage_def analyzeImage_try_def)

lemma analyzeImage_other_string:
  assumes "generateContent p (mk_request img) = Inr resp" "response_text resp = Some t"
    "JSON_parse p (trim t) = Inr v" "getProp v ''emotion'' = Inr (Some (JString s))"
    "s \<notin> set emotionValues"
  shows "\<exists>r. analyzeImage p img = Inr r \<and>
           getProp r ''emotion'' = Inr (Some (JString (Emotion_value NEUTRAL)))"
proof -
  from assms(4) obtain r where r: "setProp v ''emotion'' (JString (Emotion_value NEUTRAL)) = Inr r"
    using setProp_defined by blast
  with assms have "analyzeImage p img = Inr r"
    by (simp add: analyzeImage_def analyzeImage_try_def)
  with getProp_setProp_same [OF r] show ?thesis by blast
qed

lemma as_AnalysisResult_iff:
  assumes "getProp r ''emotion'' = Inr (Some (JString (Emotion_value e)))"
  shows "as_AnalysisResult r \<noteq> None \<longleftrightarrow>
     string_prop r ''environmentAnalysis'' \<noteq> None \<and> string_prop r ''encouragingMessage'' \<noteq> None \<and>
     string_prop r ''productivityTip'' \<noteq> None"
proof -
  from assms have "string_prop r ''emotion'' = Some (Emotion_value e)"
    by (simp add: string_prop_def)
  then show ?thesis
    by (auto simp: as_AnalysisResult_def Emotion_of_value split: option.splits)
qed

text \<open>
  C1, as the claim states it, fails: the remote model answers \<open>{}\<close>, and
  \<open>analyzeImage\<close> returns an object that has \<open>emotion\<close> only, which is neither an
  \<open>AnalysisResult\<close> nor an error.
\<close>

theorem analyzeImage_returns_untyped:
  "analyzeImage empty_object_reply ''abc'' = Inr (JObject [(''emotion'', JString ''NEUTRAL'')])
   \<and> as_AnalysisResult (JObject [(''emotion'', JString ''NEUTRAL'')]) = None"
  by (simp add: analyzeImage_def analyzeImage_try_def empty_object_reply_def replying_def
      emotionValues_def as_AnalysisResult_def string_prop_def)

text \<open>
  C1, amended. Whatever the remote model and \<open>JSON.parse\<close> do, \<open>analyzeImage\<close> returns
  the parsed answer with an \<open>emotion\<close> that is one of the enum's strings, or throws the
  \<open>Error\<close> with the one fixed message: every error thrown in the \<open>try\<close> block, a
  rejected request and a text that does not parse among them, is replaced by it, and no
  other error is thrown. An answer whose \<open>emotion\<close> is a member's string is returned as
  it is; one whose \<open>emotion\<close> is another string is returned with \<open>NEUTRAL\<close>. The value
  returned is an \<open>AnalysisResult\<close> exactly when the parsed answer has the other three
  properties as strings.
\<close>

theorem analyzeImage_result_or_fixed_error:
  "(analyzeImage p img = Inl (Error failure_message) \<or>
    (\<exists>r s. analyzeImage p img = Inr r \<and> getProp r ''emotion'' = Inr (Some (JString s)) \<and>
       s \<in> set emotionValues))
   \<and> (\<forall>e. analyzeImage_try p img = Inl e \<longrightarrow> analyzeImage p img = Inl (Error failure_message))
   \<and> (\<forall>e. generateContent p (mk_request img) = Inl e \<longrightarrow>
         analyzeImage p img = Inl (Error failure_message))
   \<and> (\<forall>resp t e. generateContent p (mk_request img) = Inr resp \<and> response_text resp = Some t \<and>
         JSON_parse p (trim t) = Inl e \<longrightarrow> analyzeImage p img = Inl (Error failure_message))
   \<and> (\<forall>e. analyzeImage p img = Inl e \<longrightarrow> e = Error failure_message)
   \<and> (\<forall>resp t v s. generateContent p (mk_request img) = Inr resp \<and> response_text resp = Some t \<and>
         JSON_parse p (trim t) = Inr v \<and> getProp v ''emotion'' = Inr (Some (JString s)) \<longrightarrow>
         (if s \<in> set emotionValues then analyzeImage p img = Inr v
          else \<exists>r. analyzeImage p img = Inr r \<and>
                 getProp r ''emotion'' = Inr (Some (JString (Emotion_value NEUTRAL)))))
   \<and> (\<forall>r. analyzeImage p img = Inr r \<longrightarrow>
         (\<exists>resp t v. generateContent p (mk_request img) = Inr resp \<and> response_text resp = Some t \<and>
            JSON_parse p (trim t) = Inr v \<and>
            (as_AnalysisResult r \<noteq> None \<longleftrightarrow>
               string_prop v ''environmentAnalysis'' \<noteq> None \<and>
               string_prop v ''encouragingMessage'' \<noteq> None \<and>
               string_prop v ''productivityTip'' \<noteq> None)))"
proof (intro conjI allI impI)
  show "analyzeImage p img = Inl (Error failure_message) \<or>
    (\<exists>r s. analyzeImage p img = Inr r \<and> getProp r ''emotion'' = Inr (Some (JString s)) \<and>
       s \<in> set emotionValues)"
  proof (cases "analyzeImage p img")
    case (Inl e)
    then show ?thesis by (simp add: analyzeImage_Inl)
  next
    case (Inr r)
    with analyzeImage_emotion [OF Inr] show ?thesis by (auto simp: emotionValues_iff)
  qed
next
  fix e assume "analyzeImage_try p img = Inl e"
  then show "analyzeImage p img = Inl (Error failure_message)" by (simp add: analyzeImage_def)
next
  fix e assume "generateContent p (mk_request img) = Inl e"
  then show "analyzeImage p img = Inl (Error failure_message)"
    by (simp add: analyzeImage_def analyzeImage_try_def)
next
  fix resp t e
  assume "generateContent p (mk_request img) = Inr resp \<and> response_text resp = Some t \<and>
         JSON_parse p (trim t) = Inl e"
  then show "analyzeImage p img = Inl (Error failure_message)"
    by (simp add: analyzeImage_def analyzeImage_try_def)
next
  fix e assume "analyzeImage p img = Inl e"
  then show "e = Error failure_message" by (simp add: analyzeImage_Inl)
next
  fix resp t v s
  assume a: "generateContent p (mk_request img) = Inr resp \<and> response_text resp = Some t \<and>
         JSON_parse p (trim t) = Inr v \<and> getProp v ''emotion'' = Inr (Some (JString s))"
  show "if s \<in> set emotionValues then analyzeImage p img = Inr v
          else \<exists>r. analyzeImage p img = Inr r \<and>
                 getProp r ''emotion'' = Inr (Some (JString (Emotion_value NEUTRAL)))"
  proof (cases "s \<in> set emotionValues")
    case True
    with a analyzeImage_valid_emotion [of p img resp t v s] show ?thesis by simp
  next
    case False
    with a analyzeImage_other_string [of p img resp t v s] show ?thesis by simp
  qed
next
  fix r assume r: "analyzeImage p img = Inr r"
  from analyzeImage_emotion [OF r] obtain e where
    e: "getProp r ''emotion'' = Inr (Some (JString (Emotion_value e)))" ..
  from r obtain resp t v where
    answer: "generateContent p (mk_request img) = Inr resp" "response_text resp = Some t"
      "JSON_parse p (trim t) = Inr v"
    and same: "\<forall>k. k \<noteq> ''emotion'' \<longrightarrow> getProp r k = getProp v k"
    by (rule analyzeImage_other_props)
  from same have "string_prop r ''environmentAnalysis'' = string_prop v ''environmentAnalysis''"
    "string_prop r ''encouragingMessage'' = string_prop v ''encouragingMessage''"
    "string_prop r ''productivityTip'' = string_prop v ''productivityTip''"
    by (simp_all add: string_prop_def)
  with as_AnalysisResult_iff [OF e]
  have "as_AnalysisResult r \<noteq> None \<longleftrightarrow>
               string_prop v ''environmentAnalysis'' \<noteq> None \<and>
               string_prop v ''encouragingMessage'' \<noteq> None \<and>
               string_prop v ''productivityTip'' \<noteq> None"
    by simp
  with answer show "\<exists>resp t v. generateContent p (mk_request img) = Inr resp \<and> response_text resp = Some t \<and>
            JSON_parse p (trim t) = Inr v \<and>
            (as_AnalysisResult r \<noteq> None \<longleftrightarrow>
               string_prop v ''environmentAnalysis'' \<noteq> None \<and>
               string_prop v ''encouragingMessage'' \<noteq> None \<and>
               string_prop v ''productivityTip'' \<noteq> None)"
    by blast
qed

lemma full_reply_answer:
  "generateContent full_reply (mk_request ''abc'') = Inr \<lparr> response_text = Some full_text \<rparr>"
  "JSON_parse full_reply (trim full_text) =
     Inr (JObject [(''emotion'', JString ''SAD''), (''environmentAnalysis'', JString ''Dim room''),
                   (''encouragingMessage'', JString ''Better days are coming.''),
                   (''productivityTip'', JString ''Open the curtains'')])"
  by (simp_all add: full_reply_def replying_def)

theorem analyzeImage_result_or_fixed_error_witness:
  "analyzeImage (rejecting (TypeError ''fetch failed'')) ''abc'' = Inl (Error failure_message)
   \<and> analyzeImage (replying ''not json'' (Inl (SyntaxError ''Unexpected token''))) ''abc''
       = Inl (Error failure_message)
   \<and> analyzeImage full_reply ''abc'' =
       Inr (JObject [(''emotion'', JString ''SAD''), (''environmentAnalysis'', JString ''Dim room''),
                     (''encouragingMessage'', JString ''Better days are coming.''),
                     (''productivityTip'', JString ''Open the curtains'')])
   \<and> as_AnalysisResult
        (JObject [(''emotion'', JString ''SAD''), (''environmentAnalysis'', JString ''Dim room''),
                  (''encouragingMessage'', JString ''Better days are coming.''),
                  (''productivityTip'', JString ''Open the curtains'')]) = Some sad_result"
proof -
  let ?v = "JObject [(''emotion'', JString ''SAD''), (''environmentAnalysis'', JString ''Dim room''),
                     (''encouragingMessage'', JString ''Better days are coming.''),
                     (''productivityTip'', JString ''Open the curtains'')]"
  have net: "generateContent (rejecting (TypeError ''fetch failed'')) (mk_request ''abc'')
      = Inl (TypeError ''fetch failed'')"
    by (simp add: rejecting_def)
  have bad: "generateContent (replying ''not json'' (Inl (SyntaxError ''Unexpected token''))) (mk_request ''abc'')
        = Inr \<lparr> response_text = Some ''not json'' \<rparr>
      \<and> response_text \<lparr> response_text = Some ''not json'' \<rparr> = Some ''not json''
      \<and> JSON_parse (replying ''not json'' (Inl (SyntaxError ''Unexpected token''))) (trim ''not json'')
        = Inl (SyntaxError ''Unexpected token'')"
    by (simp add: replying_def)
  have good: "generateContent full_reply (mk_request ''abc'') = Inr \<lparr> response_text = Some full_text \<rparr>
      \<and> response_text \<lparr> response_text = Some full_text \<rparr> = Some full_text
      \<and> JSON_parse full_reply (trim full_text) = Inr ?v
      \<and> getProp ?v ''emotion'' = Inr (Some (JString ''SAD''))"
    and sad: "''SAD'' \<in> set emotionValues"
    by (simp_all add: full_reply_answer emotionValues_def)
  from net analyzeImage_result_or_fixed_error [of "rejecting (TypeError ''fetch failed'')" "''abc''"]
  have a: "analyzeImage (rejecting (TypeError ''fetch failed'')) ''abc'' = Inl (Error failure_message)"
    by blast
  from bad analyzeImage_result_or_fixed_error
    [of "replying ''not json'' (Inl (SyntaxError ''Unexpected token''))" "''abc''"]
  have b: "analyzeImage (replying ''not json'' (Inl (SyntaxError ''Unexpected token''))) ''abc''
       = Inl (Error failure_message)"
    by blast
  from analyzeImage_result_or_fixed_error [of full_reply "''abc''"] good
  have "if ''SAD'' \<in> set emotionValues then analyzeImage full_reply ''abc'' = Inr ?v
        else \<exists>r. analyzeImage full_reply ''abc'' = Inr r \<and>
               getProp r ''emotion'' = Inr (Some (JString (Emotion_value NEUTRAL)))"
    by blast
  with sad have c: "analyzeImage full_reply ''abc'' = Inr ?v" by (simp only: if_True)
  have d: "as_AnalysisResult ?v = Some sad_result"
    by (simp add: as_AnalysisResult_def string_prop_def Emotion_of_def sad_result_def)
  from a b c d show ?thesis by (simp only: simp_thms)
qed


text \<open>
  C6, as the claim states it, fails: the remote model answers an object that has only
  \<open>emotion\<close>, and \<open>analyzeImage\<close> returns it as it is, without the other three
  fields.
\<close>

theorem analyzeImage_can_miss_fields:
  "analyzeImage happy_only_reply ''abc'' = Inr (JObject [(''emotion'', JString ''HAPPY'')])
   \<and> getProp (JObject [(''emotion'', JString ''HAPPY'')]) ''environmentAnalysis'' = Inr None
   \<and> getProp (JObject [(''emotion'', JString ''HAPPY'')]) ''encouragingMessage'' = Inr None
   \<and> getProp (JObject [(''emotion'', JString ''HAPPY'')]) ''productivityTip'' = Inr None"
  by (simp add: analyzeImage_def analyzeImage_try_def happy_only_reply_def replying_def emotionValues_def)

text \<open>
  C6, amended. A value \<open>analyzeImage\<close> returns is the parsed answer with a validated
  \<open>emotion\<close>: it always has \<open>emotion\<close>, and it has \<open>environmentAnalysis\<close>,
  \<open>encouragingMessage\<close> and \<open>productivityTip\<close> exactly as the parsed answer has
  them, so each is there when the answer has it and missing when the answer lacks it.
\<close>

theorem analyzeImage_fields_from_answer:
  assumes "analyzeImage p img = Inr r"
  shows "\<exists>resp t v. generateContent p (mk_request img) = Inr resp \<and> response_text resp = Some t \<and>
           JSON_parse p (trim t) = Inr v \<and>
           (\<exists>e. getProp r ''emotion'' = Inr (Some (JString (Emotion_value e)))) \<and>
           getProp r ''environmentAnalysis'' = getProp v ''environmentAnalysis'' \<and>
           getProp r ''encouragingMessage'' = getProp v ''encouragingMessage'' \<and>
           getProp r ''productivityTip'' = getProp v ''productivityTip''"
proof -
  from assms obtain resp t v where
    answer: "generateContent p (mk_request img) = Inr resp" "response_text resp = Some t"
      "JSON_parse p (trim t) = Inr v"
    and same: "\<forall>k. k \<noteq> ''emotion'' \<longrightarrow> getProp r k = getProp v k"
    by (rule analyzeImage_other_props)
  from analyzeImage_emotion [OF assms] answer same show ?thesis by simp
qed

theorem analyzeImage_fields_from_answer_witness:
  "analyzeImage full_reply ''abc'' =
     Inr (JObject [(''emotion'', JString ''SAD''), (''environmentAnalysis'', JString ''Dim room''),
                   (''encouragingMessage'', JString ''Better days are coming.''),
                   (''productivityTip'', JString ''Open the curtains'')])
   \<and> (\<exists>v. JSON_parse full_reply (trim full_text) = Inr v
        \<and> getProp v ''productivityTip'' = Inr (Some (JString ''Open the curtains'')))"
proof -
  have run: "analyzeImage full_reply ''abc'' =
     Inr (JObject [(''emotion'', JString ''SAD''), (''environmentAnalysis'', JString ''Dim room''),
                   (''encouragingMessage'', JString ''Better days are coming.''),
                   (''productivityTip'', JString ''Open the curtains'')])"
    by (simp add: analyzeImage_def analyzeImage_try_def full_reply_def replying_def emotionValues_def)
  from analyzeImage_fields_from_answer [OF run]
  have "\<exists>resp t v. generateContent full_reply (mk_request ''abc'') = Inr resp \<and> response_text resp = Some t \<and>
           JSON_parse full_reply (trim t) = Inr v \<and>
           getProp v ''productivityTip'' = Inr (Some (JString ''Open the curtains''))"
    by auto
  then have "\<exists>v. JSON_parse full_reply (trim full_text) = Inr v
        \<and> getProp v ''productivityTip'' = Inr (Some (JString ''Open the curtains''))"
    by (auto simp: full_reply_def replying_def)
  with run show ?thesis by simp
qed

section \<open>The speech announcer\<close>

lemma String_startsWith_prefix: "String_startsWith s p \<longleftrightarrow> prefix p s"
  by (induction s p rule: String_startsWith.induct) auto

lemma String_includes_sublist: "String_includes s sub \<longleftrightarrow> sublist sub s"
proof (induction s)
  case Nil
  show ?case by simp
next
  case (Cons x xs)
  then show ?case
    by (simp add: sublist_Cons_right String_startsWith_prefix)
qed

lemma find_first_with:
  "find P vs = Some v \<longleftrightarrow> first_with P vs v"
  unfolding first_with_def find_Some_iff by auto

lemma find_None_set: "find P vs = None \<longleftrightarrow> \<not> (\<exists>v \<in> set vs. P v)"
  by (auto simp: find_None_iff)

lemma find_Some_ex: "(\<exists>v. find P vs = Some v) \<longleftrightarrow> (\<exists>v \<in> set vs. P v)"
  using find_None_set [of P vs] by (cases "find P vs") auto

lemma preferredVoice_tests:
  "preferredVoice vs =
     (case find (\<lambda>v. contains_Google v \<and> lang_starts ''en'' v) vs of
        Some v \<Rightarrow> Some v
      | None \<Rightarrow>
          (case find (lang_starts ''en-US'') vs of
             Some v \<Rightarrow> Some v
           | None \<Rightarrow> find (lang_starts ''en'') vs))"
  unfolding preferredVoice_def contains_Google_def lang_starts_def
    String_startsWith_prefix String_includes_sublist ..

lemma speak_calls:
  "t \<noteq> [] \<Longrightarrow> synth_defined w \<Longrightarrow>
   synth_calls (speak c t w) =
     synth_calls w @ (if c_speaking c then [Cancel] else []) @
       [Speak \<lparr> utterance_text = t, voice = preferredVoice (c_voices c), pitch = 1, rate = 1, volume = 1 \<rparr>]"
  by (simp add: speak_def new_utterance_def Let_def split: option.splits)

text \<open>
  C7. Among any voices, the one \<open>speak\<close> assigns is the first whose name contains
  \<open>Google\<close> and whose language starts with \<open>en\<close>; if there is none, the first whose
  language starts with \<open>en-US\<close>; if there is none, the first whose language starts
  with \<open>en\<close>; and if there is none, no voice is assigned, which leaves the default.
  The utterance that \<open>speak\<close> hands over carries exactly that choice.
\<close>

theorem preferredVoice_order:
  "(if \<exists>v \<in> set vs. contains_Google v \<and> lang_starts ''en'' v
    then \<exists>v. preferredVoice vs = Some v \<and> first_with (\<lambda>v. contains_Google v \<and> lang_starts ''en'' v) vs v
    else if \<exists>v \<in> set vs. lang_starts ''en-US'' v
    then \<exists>v. preferredVoice vs = Some v \<and> first_with (lang_starts ''en-US'') vs v
    else if \<exists>v \<in> set vs. lang_starts ''en'' v
    then \<exists>v. preferredVoice vs = Some v \<and> first_with (lang_starts ''en'') vs v
    else preferredVoice vs = None)
   \<and> (t \<noteq> [] \<and> synth_defined w \<longrightarrow>
        (\<exists>u. synth_calls (speak \<lparr> c_voices = vs, c_speaking = sp \<rparr> t w)
                = synth_calls w @ (if sp then [Cancel] else []) @ [Speak u]
            \<and> utterance_text u = t \<and> voice u = preferredVoice vs))"
proof (intro conjI impI)
  let ?G = "\<lambda>v. contains_Google v \<and> lang_starts ''en'' v"
  show "if \<exists>v \<in> set vs. ?G v
    then \<exists>v. preferredVoice vs = Some v \<and> first_with ?G vs v
    else if \<exists>v \<in> set vs. lang_starts ''en-US'' v
    then \<exists>v. preferredVoice vs = Some v \<and> first_with (lang_starts ''en-US'') vs v
    else if \<exists>v \<in> set vs. lang_starts ''en'' v
    then \<exists>v. preferredVoice vs = Some v \<and> first_with (lang_starts ''en'') vs v
    else preferredVoice vs = None"
  proof (cases "find ?G vs")
    case (Some v)
    then have "\<exists>v \<in> set vs. ?G v" using find_Some_ex [of ?G vs] by blast
    moreover from Some have "preferredVoice vs = Some v \<and> first_with ?G vs v"
      by (simp add: preferredVoice_tests find_first_with [symmetric])
    ultimately show ?thesis by auto
  next
    case G: None
    then have nG: "\<not> (\<exists>v \<in> set vs. ?G v)" by (simp add: find_None_set)
    show ?thesis
    proof (cases "find (lang_starts ''en-US'') vs")
      case (Some v)
      then have "\<exists>v \<in> set vs. lang_starts ''en-US'' v"
        using find_Some_ex [of "lang_starts ''en-US''" vs] by blast
      moreover from G Some
      have "preferredVoice vs = Some v \<and> first_with (lang_starts ''en-US'') vs v"
        by (simp add: preferredVoice_tests find_first_with [symmetric])
      ultimately show ?thesis using nG by auto
    next
      case U: None
      then have nU: "\<not> (\<exists>v \<in> set vs. lang_starts ''en-US'' v)" by (simp add: find_None_set)
      show ?thesis
      proof (cases "find (lang_starts ''en'') vs")
        case (Some v)
        then have "\<exists>v \<in> set vs. lang_starts ''en'' v"
          using find_Some_ex [of "lang_starts ''en''" vs] by blast
        moreover from G U Some
        have "preferredVoice vs = Some v \<and> first_with (lang_starts ''en'') vs v"
          by (simp add: preferredVoice_tests find_first_with [symmetric])
        ultimately show ?thesis using nG nU by auto
      next
        case None
        then have "\<not> (\<exists>v \<in> set vs. lang_starts ''en'' v)" by (simp add: find_None_set)
        moreover from G U None have "preferredVoice vs = None"
          by (simp add: preferredVoice_tests)
        ultimately show ?thesis using nG nU by auto
      qed
    qed
  qed
next
  assume "t \<noteq> [] \<and> synth_defined w"
  then show "\<exists>u. synth_calls (speak \<lparr> c_voices = vs, c_speaking = sp \<rparr> t w)
                = synth_calls w @ (if sp then [Cancel] else []) @ [Speak u]
            \<and> utterance_text u = t \<and> voice u = preferredVoice vs"
    by (simp add: speak_calls)
qed

theorem preferredVoice_order_witness:
  "preferredVoice sample_voices = Some \<lparr> name = ''Google UK English Female'', lang = ''en-GB'' \<rparr>
   \<and> first_with (\<lambda>v. contains_Google v \<and> lang_starts ''en'' v) sample_voices
       \<lparr> name = ''Google UK English Female'', lang = ''en-GB'' \<rparr>
   \<and> (\<exists>u. synth_calls (speak \<lparr> c_voices = sample_voices, c_speaking = True \<rparr> ''Well done'' speaking_now)
            = synth_calls speaking_now @ [Cancel] @ [Speak u]
          \<and> utterance_text u = ''Well done''
          \<and> voice u = Some \<lparr> name = ''Google UK English Female'', lang = ''en-GB'' \<rparr>)"
proof -
  note order = preferredVoice_order [of sample_voices "''Well done''" speaking_now True]
  have ex: "\<exists>v \<in> set sample_voices. contains_Google v \<and> lang_starts ''en'' v"
    by (simp add: sample_voices_def contains_Google_def lang_starts_def
        String_includes_sublist [symmetric] String_startsWith_prefix [symmetric])
  have pv: "preferredVoice sample_voices = Some \<lparr> name = ''Google UK English Female'', lang = ''en-GB'' \<rparr>"
    by (simp add: preferredVoice_def sample_voices_def)
  from order ex obtain v where
    "preferredVoice sample_voices = Some v"
    "first_with (\<lambda>v. contains_Google v \<and> lang_starts ''en'' v) sample_voices v"
    by auto
  with pv have first: "first_with (\<lambda>v. contains_Google v \<and> lang_starts ''en'' v) sample_voices
       \<lparr> name = ''Google UK English Female'', lang = ''en-GB'' \<rparr>"
    by simp
  have "''Well done'' \<noteq> [] \<and> synth_defined speaking_now" by (simp add: speaking_now_def)
  with order pv have "\<exists>u. synth_calls (speak \<lparr> c_voices = sample_voices, c_speaking = True \<rparr> ''Well done'' speaking_now)
            = synth_calls speaking_now @ [Cancel] @ [Speak u]
          \<and> utterance_text u = ''Well done''
          \<and> voice u = Some \<lparr> name = ''Google UK English Female'', lang = ''en-GB'' \<rparr>"
    by simp
  with pv first show ?thesis by simp
qed

text \<open>
  C10. \<open>speak\<close> with the empty string changes nothing: no call of \<open>cancel\<close> or
  \<open>speak\<close> is made on \<open>speechSynthesis\<close>, so no utterance is handed over, and the
  hook's \<open>speaking\<close> flag stays as it is.
\<close>

theorem speak_empty_is_noop: "speak c [] w = w"
  by (simp add: speak_def)

theorem speak_empty_is_noop_witness:
  "speak \<lparr> c_voices = sample_voices, c_speaking = True \<rparr> [] speaking_now = speaking_now
   \<and> synth_calls (speak \<lparr> c_voices = sample_voices, c_speaking = True \<rparr> [] speaking_now)
       = [Speak (new_utterance ''Keep smiling!'')]
   \<and> speaking (speak \<lparr> c_voices = sample_voices, c_speaking = True \<rparr> [] speaking_now) = True"
  using speak_empty_is_noop [of "\<lparr> c_voices = sample_voices, c_speaking = True \<rparr>" speaking_now]
  by (simp add: speaking_now_def)


section \<open>The capture loop\<close>

text \<open>The definitions that running the component on given events unfolds.\<close>

lemmas app_defs =
  mounted_def commit_def handleStart_def handleStop_def effect_body_def effect_cleanup_def
  stopWebcam_def startWebcam_def startWebcam_resolved_def startWebcam_rejected_def
  captureAndAnalyze_def captureAndAnalyze_resumed_def analysis_settled_def clearInterval_def

subsection \<open>What the effect changes\<close>

lemma stopWebcam_frame:
  "isAnalyzing (stopWebcam w) = isAnalyzing w" "isLoading (stopWebcam w) = isLoading w"
  "error (stopWebcam w) = error w" "analysisResult (stopWebcam w) = analysisResult w"
  "lastSpokenMessage (stopWebcam w) = lastSpokenMessage w" "surpriseKey (stopWebcam w) = surpriseKey w"
  "videoRef (stopWebcam w) = videoRef w" "canvasRef (stopWebcam w) = canvasRef w"
  "intervalRef (stopWebcam w) = intervalRef w" "effectDeps (stopWebcam w) = effectDeps w"
  "timers (stopWebcam w) = timers w" "nextTimerId (stopWebcam w) = nextTimerId w"
  "awaited (stopWebcam w) = awaited w" "captured (stopWebcam w) = captured w"
  "spoken (stopWebcam w) = spoken w"
  by (simp_all add: stopWebcam_def Let_def)

lemma startWebcam_frame:
  "isAnalyzing (startWebcam w) = isAnalyzing w" "isLoading (startWebcam w) = isLoading w"
  "analysisResult (startWebcam w) = analysisResult w"
  "lastSpokenMessage (startWebcam w) = lastSpokenMessage w" "surpriseKey (startWebcam w) = surpriseKey w"
  "videoRef (startWebcam w) = videoRef w" "canvasRef (startWebcam w) = canvasRef w"
  "intervalRef (startWebcam w) = intervalRef w" "effectDeps (startWebcam w) = effectDeps w"
  "timers (startWebcam w) = timers w" "nextTimerId (startWebcam w) = nextTimerId w"
  "awaited (startWebcam w) = awaited w" "captured (startWebcam w) = captured w"
  "spoken (startWebcam w) = spoken w"
  by (simp_all add: startWebcam_def)

lemma effect_cleanup_frame:
  "isAnalyzing (effect_cleanup w) = isAnalyzing w" "isLoading (effect_cleanup w) = isLoading w"
  "error (effect_cleanup w) = error w" "analysisResult (effect_cleanup w) = analysisResult w"
  "lastSpokenMessage (effect_cleanup w) = lastSpokenMessage w"
  "surpriseKey (effect_cleanup w) = surpriseKey w"
  "videoRef (effect_cleanup w) = videoRef w" "canvasRef (effect_cleanup w) = canvasRef w"
  "intervalRef (effect_cleanup w) = intervalRef w" "effectDeps (effect_cleanup w) = effectDeps w"
  "nextTimerId (effect_cleanup w) = nextTimerId w"
  "awaited (effect_cleanup w) = awaited w" "captured (effect_cleanup w) = captured w"
  "spoken (effect_cleanup w) = spoken w"
  by (simp_all add: effect_cleanup_def Let_def clearInterval_def stopWebcam_frame split: option.splits)

lemma effect_cleanup_timers:
  "timers (effect_cleanup w) =
     (case intervalRef w of None \<Rightarrow> timers w
      | Some i \<Rightarrow> if i \<noteq> 0 then AList.delete i (timers w) else timers w)"
  by (simp add: effect_cleanup_def Let_def clearInterval_def stopWebcam_frame split: option.splits)

lemma effect_body_frame:
  "isAnalyzing (effect_body w) = isAnalyzing w" "isLoading (effect_body w) = isLoading w"
  "analysisResult (effect_body w) = analysisResult w"
  "lastSpokenMessage (effect_body w) = lastSpokenMessage w"
  "surpriseKey (effect_body w) = surpriseKey w"
  "videoRef (effect_body w) = videoRef w" "canvasRef (effect_body w) = canvasRef w"
  "effectDeps (effect_body w) = effectDeps w"
  "awaited (effect_body w) = awaited w" "captured (effect_body w) = captured w"
  "spoken (effect_body w) = spoken w"
  by (simp_all add: effect_body_def Let_def clearInterval_def stopWebcam_frame startWebcam_frame
      split: option.splits)

lemma effect_body_stopping:
  assumes "\<not> isAnalyzing w"
  shows "error (effect_body w) = error w"
    and "timers (effect_body w) =
      (case intervalRef w of None \<Rightarrow> timers w
       | Some i \<Rightarrow> if i \<noteq> 0 then AList.delete i (timers w) else timers w)"
    and "intervalRef (effect_body w) =
      (case intervalRef w of None \<Rightarrow> None | Some i \<Rightarrow> if i \<noteq> 0 then None else Some i)"
    and "nextTimerId (effect_body w) = nextTimerId w"
  using assms
  by (simp_all add: effect_body_def Let_def clearInterval_def stopWebcam_frame split: option.splits)

lemma effect_body_starting:
  assumes "isAnalyzing w"
  shows "timers (effect_body w) =
      timers w @ [(nextTimerId w, \<lparr> delay = 5000, callback =
         \<lparr> c_isLoading = isLoading w, c_lastSpokenMessage = lastSpokenMessage w \<rparr> \<rparr>)]"
    and "intervalRef (effect_body w) = Some (nextTimerId w)"
    and "nextTimerId (effect_body w) = nextTimerId w + 1"
  using assms by (simp_all add: effect_body_def Let_def startWebcam_frame)

lemma commit_frame:
  "isAnalyzing (commit w) = isAnalyzing w" "isLoading (commit w) = isLoading w"
  "analysisResult (commit w) = analysisResult w"
  "lastSpokenMessage (commit w) = lastSpokenMessage w"
  "surpriseKey (commit w) = surpriseKey w"
  "videoRef (commit w) = videoRef w" "canvasRef (commit w) = canvasRef w"
  "awaited (commit w) = awaited w" "captured (commit w) = captured w"
  "spoken (commit w) = spoken w" "effectDeps (commit w) = isAnalyzing w"
  by (simp_all add: commit_def effect_body_frame effect_cleanup_frame)

lemma commit_error: "\<not> isAnalyzing w \<Longrightarrow> error (commit w) = error w"
  by (simp add: commit_def effect_body_stopping effect_cleanup_frame)

lemma commit_same: "effectDeps w = isAnalyzing w \<Longrightarrow> commit w = w"
  by (simp add: commit_def)

subsection \<open>The timers\<close>

lemma timer_inv_mounted: "timer_inv (mounted md)"
  by (simp add: timer_inv_def mounted_def)

lemma single_timer: "map fst ts = [i] \<Longrightarrow> \<exists>t. ts = [(i, t)]"
  by (cases ts) auto

lemma timer_inv_frame:
  "timer_inv w \<Longrightarrow> isAnalyzing w' = isAnalyzing w \<Longrightarrow> effectDeps w' = effectDeps w \<Longrightarrow>
   intervalRef w' = intervalRef w \<Longrightarrow> timers w' = timers w \<Longrightarrow> nextTimerId w' = nextTimerId w \<Longrightarrow>
   videoRef w' = videoRef w \<Longrightarrow> canvasRef w' = canvasRef w \<Longrightarrow> timer_inv w'"
  by (auto simp: timer_inv_def split: option.splits)

lemma timer_inv_same: "timer_inv w \<Longrightarrow> commit w = w"
  by (simp add: commit_same timer_inv_def)

lemma timer_inv_stopped: "timer_inv w \<Longrightarrow> \<not> isAnalyzing w \<Longrightarrow> timers w = [] \<and> intervalRef w = None"
  by (auto simp: timer_inv_def split: option.splits)

lemma timer_inv_running:
  "timer_inv w \<Longrightarrow> isAnalyzing w \<Longrightarrow>
   \<exists>i t. intervalRef w = Some i \<and> 0 < i \<and> timers w = [(i, t)] \<and> delay t = 5000"
  by (auto simp: timer_inv_def split: option.splits dest!: single_timer)

text \<open>Setting isAnalyzing and committing sets the one timer.\<close>

lemma timer_inv_start:
  assumes inv: "timer_inv w" and "\<not> isAnalyzing w"
  shows "timer_inv (commit (handleStart w))"
    and "timers (commit (handleStart w)) =
       [(nextTimerId w, \<lparr> delay = 5000, callback =
           \<lparr> c_isLoading = isLoading w, c_lastSpokenMessage = lastSpokenMessage w \<rparr> \<rparr>)]"
    and "isAnalyzing (commit (handleStart w))"
proof -
  let ?h = "handleStart w"
  from assms have st: "timers w = []" "intervalRef w = None" "effectDeps w = False"
    "0 < nextTimerId w" "videoRef w" "canvasRef w"
    by (auto simp: timer_inv_def split: option.splits)
  have h: "isAnalyzing ?h" "effectDeps ?h = False" "timers ?h = []" "intervalRef ?h = None"
    "nextTimerId ?h = nextTimerId w" "isLoading ?h = isLoading w"
    "lastSpokenMessage ?h = lastSpokenMessage w" "videoRef ?h" "canvasRef ?h"
    using st by (simp_all add: handleStart_def)
  have c: "commit ?h = (effect_body (effect_cleanup ?h))\<lparr> effectDeps := True \<rparr>"
    using h by (simp add: commit_def)
  have cl: "isAnalyzing (effect_cleanup ?h)" "timers (effect_cleanup ?h) = []"
    "nextTimerId (effect_cleanup ?h) = nextTimerId w" "isLoading (effect_cleanup ?h) = isLoading w"
    "lastSpokenMessage (effect_cleanup ?h) = lastSpokenMessage w"
    using h by (simp_all add: effect_cleanup_frame effect_cleanup_timers)
  show t: "timers (commit ?h) =
       [(nextTimerId w, \<lparr> delay = 5000, callback =
           \<lparr> c_isLoading = isLoading w, c_lastSpokenMessage = lastSpokenMessage w \<rparr> \<rparr>)]"
    unfolding c using cl by (simp add: effect_body_starting)
  show a: "isAnalyzing (commit ?h)" using h by (simp add: commit_frame)
  have "intervalRef (commit ?h) = Some (nextTimerId w)" "nextTimerId (commit ?h) = nextTimerId w + 1"
    unfolding c using cl by (simp_all add: effect_body_starting)
  with t a st h show "timer_inv (commit ?h)"
    by (simp add: timer_inv_def commit_frame)
qed

text \<open>Clearing isAnalyzing and committing clears the timer.\<close>

lemma timer_inv_stop:
  assumes inv: "timer_inv w" and w': "isAnalyzing w' = False" "effectDeps w' = effectDeps w"
    "intervalRef w' = intervalRef w" "timers w' = timers w" "nextTimerId w' = nextTimerId w"
    "videoRef w' = videoRef w" "canvasRef w' = canvasRef w"
  shows "timer_inv (commit w')" and "timers (commit w') = []"
proof -
  have "timer_inv (commit w') \<and> timers (commit w') = []"
  proof (cases "isAnalyzing w")
    case False
    with inv w' have "timer_inv w'" by (auto intro: timer_inv_frame)
    moreover from timer_inv_stopped [OF inv False] w' have "timers w' = []" by simp
    ultimately show ?thesis by (simp add: timer_inv_same)
  next
    case True
    from timer_inv_running [OF inv True] obtain i t where
      r: "intervalRef w = Some i" "0 < i" "timers w = [(i, t)]" by blast
    from inv True have d: "effectDeps w" "0 < nextTimerId w" "videoRef w" "canvasRef w"
      by (simp_all add: timer_inv_def)
    from w' d have c: "commit w' = (effect_body (effect_cleanup w'))\<lparr> effectDeps := False \<rparr>"
      by (simp add: commit_def)
    have cl: "\<not> isAnalyzing (effect_cleanup w')" "timers (effect_cleanup w') = []"
      "intervalRef (effect_cleanup w') = Some i" "nextTimerId (effect_cleanup w') = nextTimerId w"
      using w' r by (simp_all add: effect_cleanup_frame effect_cleanup_timers)
    have "timers (commit w') = []" "intervalRef (commit w') = None"
      "nextTimerId (commit w') = nextTimerId w"
      unfolding c using cl r by (simp_all add: effect_body_stopping)
    with w' d show ?thesis by (simp add: timer_inv_def commit_frame)
  qed
  then show "timer_inv (commit w')" and "timers (commit w') = []" by simp_all
qed

lemma captureAndAnalyze_frame:
  "isAnalyzing (captureAndAnalyze c ctx img w) = isAnalyzing w"
  "effectDeps (captureAndAnalyze c ctx img w) = effectDeps w"
  "intervalRef (captureAndAnalyze c ctx img w) = intervalRef w"
  "timers (captureAndAnalyze c ctx img w) = timers w"
  "nextTimerId (captureAndAnalyze c ctx img w) = nextTimerId w"
  "videoRef (captureAndAnalyze c ctx img w) = videoRef w"
  "canvasRef (captureAndAnalyze c ctx img w) = canvasRef w"
  "spoken (captureAndAnalyze c ctx img w) = spoken w"
  "analysisResult (captureAndAnalyze c ctx img w) = analysisResult w"
  "lastSpokenMessage (captureAndAnalyze c ctx img w) = lastSpokenMessage w"
  by (simp_all add: captureAndAnalyze_def Let_def)


lemma resumed_frame:
  "effectDeps (captureAndAnalyze_resumed c now outcome w) = effectDeps w"
  "intervalRef (captureAndAnalyze_resumed c now outcome w) = intervalRef w"
  "timers (captureAndAnalyze_resumed c now outcome w) = timers w"
  "nextTimerId (captureAndAnalyze_resumed c now outcome w) = nextTimerId w"
  "videoRef (captureAndAnalyze_resumed c now outcome w) = videoRef w"
  "canvasRef (captureAndAnalyze_resumed c now outcome w) = canvasRef w"
  "captured (captureAndAnalyze_resumed c now outcome w) = captured w"
  "isLoading (captureAndAnalyze_resumed c now outcome w) = False"
  by (simp_all add: captureAndAnalyze_resumed_def analysis_settled_def Let_def split: sum.splits)

lemma resumed_success:
  "isAnalyzing (captureAndAnalyze_resumed c now (Inr res) w) = isAnalyzing w"
  "analysisResult (captureAndAnalyze_resumed c now (Inr res) w) = Some res"
  "spoken (captureAndAnalyze_resumed c now (Inr res) w) =
     (if encouragingMessage res \<noteq> c_lastSpokenMessage c then spoken w @ [encouragingMessage res]
      else spoken w)"
  "lastSpokenMessage (captureAndAnalyze_resumed c now (Inr res) w) =
     (if encouragingMessage res \<noteq> c_lastSpokenMessage c then encouragingMessage res
      else lastSpokenMessage w)"
  by (simp_all add: captureAndAnalyze_resumed_def analysis_settled_def Let_def)

lemma resumed_failure:
  "captureAndAnalyze_resumed c now (Inl err) w =
     w\<lparr> error := Some (message err), isAnalyzing := False, isLoading := False \<rparr>"
  by (simp add: captureAndAnalyze_resumed_def analysis_settled_def)

lemma timer_inv_step: "timer_inv w \<Longrightarrow> timer_inv (step e w)"
proof (cases e)
  case ClickStart
  assume "timer_inv w"
  with ClickStart show ?thesis by (simp add: timer_inv_start)
next
  case ClickStop
  assume "timer_inv w"
  with ClickStop timer_inv_stop(1) [of w "handleStop w"] show ?thesis
    by (simp add: handleStop_def)
next
  case (Tick i ctx img)
  assume inv: "timer_inv w"
  have "timer_inv (captureAndAnalyze c ctx img w)" for c
    by (rule timer_inv_frame [OF inv]) (simp_all add: captureAndAnalyze_frame)
  with Tick inv show ?thesis
    by (simp add: timer_inv_same split: option.splits)
next
  case (Settled r now outcome)
  assume inv: "timer_inv w"
  show ?thesis
  proof (cases "map_of (awaited w) r")
    case None
    with Settled inv show ?thesis by simp
  next
    case (Some c)
    let ?w = "w\<lparr> awaited := AList.delete r (awaited w) \<rparr>"
    show ?thesis
    proof (cases outcome)
      case (Inr res)
      have "timer_inv (captureAndAnalyze_resumed c now (Inr res) ?w)"
        by (rule timer_inv_frame [OF inv]) (simp_all add: resumed_frame resumed_success)
      with Settled Some Inr show ?thesis by (simp add: timer_inv_same)
    next
      case (Inl err)
      have "timer_inv (commit (captureAndAnalyze_resumed c now (Inl err) ?w))"
        by (rule timer_inv_stop(1) [OF inv]) (simp_all add: resumed_failure)
      with Settled Some Inl show ?thesis by simp
    qed
  qed
next
  case CameraResolved
  assume inv: "timer_inv w"
  have "timer_inv (startWebcam_resolved (w\<lparr> cameraRequests := cameraRequests w - 1 \<rparr>))"
    by (rule timer_inv_frame [OF inv]) (simp_all add: startWebcam_resolved_def)
  with CameraResolved inv show ?thesis by (simp add: timer_inv_same)
next
  case CameraRejected
  assume inv: "timer_inv w"
  have "timer_inv (startWebcam_rejected (w\<lparr> cameraRequests := cameraRequests w - 1 \<rparr>))"
    by (rule timer_inv_frame [OF inv]) (simp_all add: startWebcam_rejected_def)
  with CameraRejected inv show ?thesis by (simp add: timer_inv_same)
qed

lemma timer_inv_run: "timer_inv w \<Longrightarrow> timer_inv (run evs w)"
  by (induction evs arbitrary: w) (simp_all add: timer_inv_step)

lemma timer_inv_reachable: "timer_inv (run evs (mounted md))"
  by (rule timer_inv_run [OF timer_inv_mounted])

text \<open>A failed analysis stops the loop.\<close>

lemma failure_step:
  assumes inv: "timer_inv w" and aw: "map_of (awaited w) r = Some c"
  shows "error (step (Settled r now (Inl err)) w) = Some (message err)"
    and "isAnalyzing (step (Settled r now (Inl err)) w) = False"
    and "timers (step (Settled r now (Inl err)) w) = []"
    and "analysisResult (step (Settled r now (Inl err)) w) = analysisResult w"
    and "lastSpokenMessage (step (Settled r now (Inl err)) w) = lastSpokenMessage w"
    and "spoken (step (Settled r now (Inl err)) w) = spoken w"
    and "surpriseKey (step (Settled r now (Inl err)) w) = surpriseKey w"
    and "captured (step (Settled r now (Inl err)) w) = captured w"
    and "isLoading (step (Settled r now (Inl err)) w) = False"
proof -
  let ?w = "captureAndAnalyze_resumed c now (Inl err) (w\<lparr> awaited := AList.delete r (awaited w) \<rparr>)"
  have s: "step (Settled r now (Inl err)) w = commit ?w" using aw by simp
  show "timers (step (Settled r now (Inl err)) w) = []"
    unfolding s by (rule timer_inv_stop(2) [OF inv]) (simp_all add: resumed_failure)
  have na: "\<not> isAnalyzing ?w" by (simp add: resumed_failure)
  have "error ?w = Some (message err)" by (simp add: resumed_failure)
  with commit_error [OF na]
  show "error (step (Settled r now (Inl err)) w) = Some (message err)"
    unfolding s by simp
  show "isAnalyzing (step (Settled r now (Inl err)) w) = False"
    and "analysisResult (step (Settled r now (Inl err)) w) = analysisResult w"
    and "lastSpokenMessage (step (Settled r now (Inl err)) w) = lastSpokenMessage w"
    and "spoken (step (Settled r now (Inl err)) w) = spoken w"
    and "surpriseKey (step (Settled r now (Inl err)) w) = surpriseKey w"
    and "captured (step (Settled r now (Inl err)) w) = captured w"
    and "isLoading (step (Settled r now (Inl err)) w) = False"
    unfolding s by (simp_all add: commit_frame resumed_failure)
qed

lemma stopped_step:
  assumes inv: "timer_inv w" and st: "\<not> isAnalyzing w" and e: "e \<noteq> ClickStart"
  shows "\<not> isAnalyzing (step e w) \<and> captured (step e w) = captured w"
proof (cases e)
  case ClickStart
  with e show ?thesis by simp
next
  case ClickStop
  with st show ?thesis by simp
next
  case (Tick i ctx img)
  with timer_inv_stopped [OF inv st] st show ?thesis by simp
next
  case (Settled r now outcome)
  show ?thesis
  proof (cases outcome)
    case (Inl err)
    with Settled st show ?thesis
      by (simp add: commit_frame resumed_failure split: option.splits)
  next
    case (Inr res)
    with Settled st show ?thesis
      by (simp add: commit_frame resumed_frame resumed_success split: option.splits)
  qed
next
  case CameraResolved
  with st show ?thesis by (simp add: commit_frame startWebcam_resolved_def)
next
  case CameraRejected
  with st show ?thesis by (simp add: commit_frame startWebcam_rejected_def)
qed

lemma stopped_run:
  assumes "timer_inv w" "\<not> isAnalyzing w" "ClickStart \<notin> set evs"
  shows "\<not> isAnalyzing (run evs w) \<and> captured (run evs w) = captured w"
  using assms
proof (induction evs arbitrary: w)
  case Nil
  then show ?case by simp
next
  case (Cons e evs)
  from Cons.prems have e: "e \<noteq> ClickStart" "ClickStart \<notin> set evs" by auto
  from stopped_step [OF Cons.prems(1,2) e(1)]
  have s: "\<not> isAnalyzing (step e w)" "captured (step e w) = captured w" by simp_all
  from Cons.IH [OF timer_inv_step [OF Cons.prems(1)] s(1) e(2)] s
  show ?case by simp
qed

text \<open>
  C4. In any state the mounted component can reach, when an awaited \<open>analyzeImage\<close>
  throws, the error's message is stored in \<open>error\<close>, \<open>isAnalyzing\<close> becomes false and
  no interval is left set; and whatever happens next short of a click on Start
  Analysis, no interval is set, no frame is captured and \<open>isAnalyzing\<close> stays false.
  A click on Start Analysis sets the 5000 ms interval again.
\<close>

theorem no_tick_after_failure:
  assumes "w = run evs0 (mounted md)" and "map_of (awaited w) r = Some c"
    and "w' = step (Settled r now (Inl err)) w" and "ClickStart \<notin> set evs"
  shows "error w' = Some (message err) \<and> isAnalyzing w' = False \<and> timers w' = []
    \<and> isAnalyzing (run evs w') = False \<and> timers (run evs w') = []
    \<and> captured (run evs w') = captured w'
    \<and> isAnalyzing (step ClickStart (run evs w')) = True
    \<and> (\<exists>i t. timers (step ClickStart (run evs w')) = [(i, t)] \<and> delay t = 5000)"
proof -
  from assms(1) have inv: "timer_inv w" by (simp add: timer_inv_reachable)
  have inv': "timer_inv w'" unfolding assms(3) by (rule timer_inv_step [OF inv])
  from failure_step(1-3) [OF inv assms(2), of now err] assms(3)
  have f: "error w' = Some (message err)" "\<not> isAnalyzing w'" "timers w' = []"
    by simp_all
  from stopped_run [OF inv' f(2) assms(4)]
  have r: "\<not> isAnalyzing (run evs w')" "captured (run evs w') = captured w'" by simp_all
  have invr: "timer_inv (run evs w')" by (rule timer_inv_run [OF inv'])
  from timer_inv_stopped [OF invr r(1)] have t: "timers (run evs w') = []" by simp
  from timer_inv_start(2,3) [OF invr r(1)] r(1)
  have "isAnalyzing (step ClickStart (run evs w')) = True"
    "\<exists>i t. timers (step ClickStart (run evs w')) = [(i, t)] \<and> delay t = 5000"
    by simp_all
  with f r t show ?thesis by simp
qed

lemma first_call_awaited_eq:
  "first_call_awaited =
     \<lparr> isAnalyzing = True, isLoading = True, error = None, analysisResult = None,
       lastSpokenMessage = [], surpriseKey = 0, videoRef = True, canvasRef = True,
       intervalRef = Some 1, streamRef = False, srcObject = False, effectDeps = True,
       mediaDevices = True,
       timers = [(1, \<lparr> delay = 5000, callback = \<lparr> c_isLoading = False, c_lastSpokenMessage = [] \<rparr> \<rparr>)],
       nextTimerId = 2,
       awaited = [(1, \<lparr> c_isLoading = False, c_lastSpokenMessage = [] \<rparr>)],
       nextRequestId = 2, cameraRequests = 1, captured = [''frame1''], spoken = [] \<rparr>"
  by (simp add: first_call_awaited_def app_defs)


theorem no_tick_after_failure_witness:
  "map_of (awaited first_call_awaited) 1 = Some \<lparr> c_isLoading = False, c_lastSpokenMessage = [] \<rparr>
   \<and> ClickStart \<notin> set [Tick 1 True ''frame2'', ClickStop, CameraResolved]
   \<and> error (step (Settled 1 100 (Inl (Error failure_message))) first_call_awaited) = Some failure_message
   \<and> isAnalyzing (step (Settled 1 100 (Inl (Error failure_message))) first_call_awaited) = False
   \<and> timers (run [Tick 1 True ''frame2'', ClickStop, CameraResolved]
        (step (Settled 1 100 (Inl (Error failure_message))) first_call_awaited)) = []
   \<and> captured (run [Tick 1 True ''frame2'', ClickStop, CameraResolved]
        (step (Settled 1 100 (Inl (Error failure_message))) first_call_awaited)) = [''frame1'']"
proof -
  let ?w' = "step (Settled 1 100 (Inl (Error failure_message))) first_call_awaited"
  let ?evs = "[Tick 1 True ''frame2'', ClickStop, CameraResolved]"
  have aw: "map_of (awaited first_call_awaited) 1 = Some \<lparr> c_isLoading = False, c_lastSpokenMessage = [] \<rparr>"
    by (simp add: first_call_awaited_eq)
  have ns: "ClickStart \<notin> set ?evs" by simp
  have cap: "captured ?w' = [''frame1'']"
    by (simp add: first_call_awaited_eq app_defs)
  note after = no_tick_after_failure [OF first_call_awaited_def aw refl ns, of 100 "Error failure_message"]
  from after have "error ?w' = Some (message (Error failure_message))" by (rule conjunct1)
  then have e: "error ?w' = Some failure_message" by (simp only: message.simps)
  from after have a: "isAnalyzing ?w' = False" "timers (run ?evs ?w') = []"
    "captured (run ?evs ?w') = captured ?w'"
    by blast+
  from a(3) cap have c: "captured (run ?evs ?w') = [''frame1'']" by (simp only:)
  from aw ns e a(1,2) c show ?thesis by blast
qed






lemma settled_failure_fields:
  assumes aw: "map_of (awaited w) r = Some c"
  shows "analysisResult (step (Settled r now (Inl err)) w) = analysisResult w"
    and "lastSpokenMessage (step (Settled r now (Inl err)) w) = lastSpokenMessage w"
    and "spoken (step (Settled r now (Inl err)) w) = spoken w"
    and "surpriseKey (step (Settled r now (Inl err)) w) = surpriseKey w"
    and "error (step (Settled r now (Inl err)) w) = Some (message err)"
    and "isAnalyzing (step (Settled r now (Inl err)) w) = False"
    and "isLoading (step (Settled r now (Inl err)) w) = False"
    and "captured (step (Settled r now (Inl err)) w) = captured w"
proof -
  let ?w = "captureAndAnalyze_resumed c now (Inl err) (w\<lparr> awaited := AList.delete r (awaited w) \<rparr>)"
  have s: "step (Settled r now (Inl err)) w = commit ?w" using aw by simp
  have na: "\<not> isAnalyzing ?w" and e: "error ?w = Some (message err)"
    by (simp_all add: resumed_failure)
  from commit_error [OF na] e
  show "error (step (Settled r now (Inl err)) w) = Some (message err)" unfolding s by simp
  show "analysisResult (step (Settled r now (Inl err)) w) = analysisResult w"
    "lastSpokenMessage (step (Settled r now (Inl err)) w) = lastSpokenMessage w"
    "spoken (step (Settled r now (Inl err)) w) = spoken w"
    "surpriseKey (step (Settled r now (Inl err)) w) = surpriseKey w"
    "isAnalyzing (step (Settled r now (Inl err)) w) = False"
    "isLoading (step (Settled r now (Inl err)) w) = False"
    "captured (step (Settled r now (Inl err)) w) = captured w"
    unfolding s by (simp_all add: commit_frame resumed_failure)
qed

lemma happy_spoken_eq:
  "happy_spoken =
     \<lparr> isAnalyzing = True, isLoading = False, error = None, analysisResult = Some happy_result,
       lastSpokenMessage = ''Keep smiling!'', surpriseKey = 0, videoRef = True, canvasRef = True,
       intervalRef = Some 1, streamRef = False, srcObject = False, effectDeps = True,
       mediaDevices = True,
       timers = [(1, \<lparr> delay = 5000, callback = \<lparr> c_isLoading = False, c_lastSpokenMessage = [] \<rparr> \<rparr>)],
       nextTimerId = 2, awaited = [], nextRequestId = 2, cameraRequests = 1,
       captured = [''frame1''], spoken = [''Keep smiling!''] \<rparr>"
  by (simp add: happy_spoken_def app_defs happy_result_def)

lemma happy_shown_eq:
  "happy_shown =
     \<lparr> isAnalyzing = True, isLoading = True, error = None, analysisResult = Some happy_result,
       lastSpokenMessage = ''Keep smiling!'', surpriseKey = 0, videoRef = True, canvasRef = True,
       intervalRef = Some 1, streamRef = False, srcObject = False, effectDeps = True,
       mediaDevices = True,
       timers = [(1, \<lparr> delay = 5000, callback = \<lparr> c_isLoading = False, c_lastSpokenMessage = [] \<rparr> \<rparr>)],
       nextTimerId = 2,
       awaited = [(2, \<lparr> c_isLoading = False, c_lastSpokenMessage = [] \<rparr>)],
       nextRequestId = 3, cameraRequests = 1, captured = [''frame1'', ''frame2''],
       spoken = [''Keep smiling!''] \<rparr>"
  by (simp add: happy_shown_def happy_spoken_eq app_defs)

text \<open>
  C9, as the claim states it, fails: while the second tick's call is awaited
  \<open>isLoading\<close> is true, and when that call throws \<open>isLoading\<close> becomes false, a change
  besides those of \<open>error\<close> and \<open>isAnalyzing\<close>.
\<close>

theorem failure_resets_isLoading:
  "map_of (awaited happy_shown) 2 = Some \<lparr> c_isLoading = False, c_lastSpokenMessage = [] \<rparr>
   \<and> isLoading happy_shown = True
   \<and> isLoading (step (Settled 2 200 (Inl (Error failure_message))) happy_shown) = False"
  by (simp add: happy_shown_eq app_defs)

text \<open>
  C9, amended. When the awaited \<open>analyzeImage\<close> throws, \<open>analysisResult\<close> and
  \<open>lastSpokenMessage\<close> are left as they were, and so are \<open>surpriseKey\<close>, the texts
  spoken and the frames captured; \<open>error\<close> becomes the error's message, \<open>isAnalyzing\<close>
  becomes false, and \<open>isLoading\<close> becomes false, as it does after every capture. These
  three are the only state variables that \<open>captureAndAnalyze\<close> changes then.
\<close>

theorem failure_leaves_result:
  "captureAndAnalyze_resumed c now (Inl err) w
         = w\<lparr> error := Some (message err), isAnalyzing := False, isLoading := False \<rparr>
   \<and> (map_of (awaited w) r = Some c \<longrightarrow>
        analysisResult (step (Settled r now (Inl err)) w) = analysisResult w \<and>
        lastSpokenMessage (step (Settled r now (Inl err)) w) = lastSpokenMessage w \<and>
        surpriseKey (step (Settled r now (Inl err)) w) = surpriseKey w \<and>
        spoken (step (Settled r now (Inl err)) w) = spoken w \<and>
        captured (step (Settled r now (Inl err)) w) = captured w \<and>
        error (step (Settled r now (Inl err)) w) = Some (message err) \<and>
        isAnalyzing (step (Settled r now (Inl err)) w) = False \<and>
        isLoading (step (Settled r now (Inl err)) w) = False)"
proof (intro conjI impI)
  show "captureAndAnalyze_resumed c now (Inl err) w
         = w\<lparr> error := Some (message err), isAnalyzing := False, isLoading := False \<rparr>"
    by (rule resumed_failure)
next
  assume aw: "map_of (awaited w) r = Some c"
  from settled_failure_fields [OF aw]
  show "analysisResult (step (Settled r now (Inl err)) w) = analysisResult w"
    "lastSpokenMessage (step (Settled r now (Inl err)) w) = lastSpokenMessage w"
    "surpriseKey (step (Settled r now (Inl err)) w) = surpriseKey w"
    "spoken (step (Settled r now (Inl err)) w) = spoken w"
    "captured (step (Settled r now (Inl err)) w) = captured w"
    "error (step (Settled r now (Inl err)) w) = Some (message err)"
    "isAnalyzing (step (Settled r now (Inl err)) w) = False"
    "isLoading (step (Settled r now (Inl err)) w) = False"
    by blast+
qed

theorem failure_leaves_result_witness:
  "map_of (awaited happy_shown) 2 = Some \<lparr> c_isLoading = False, c_lastSpokenMessage = [] \<rparr>
   \<and> analysisResult (step (Settled 2 200 (Inl (Error failure_message))) happy_shown) = Some happy_result
   \<and> lastSpokenMessage (step (Settled 2 200 (Inl (Error failure_message))) happy_shown) = ''Keep smiling!''
   \<and> error (step (Settled 2 200 (Inl (Error failure_message))) happy_shown) = Some failure_message
   \<and> isAnalyzing (step (Settled 2 200 (Inl (Error failure_message))) happy_shown) = False
   \<and> isLoading (step (Settled 2 200 (Inl (Error failure_message))) happy_shown) = False"
proof -
  let ?c = "\<lparr> c_isLoading = False, c_lastSpokenMessage = [] \<rparr>"
  let ?w' = "step (Settled 2 200 (Inl (Error failure_message))) happy_shown"
  have aw: "map_of (awaited happy_shown) 2 = Some ?c"
    and st: "analysisResult happy_shown = Some happy_result" "lastSpokenMessage happy_shown = ''Keep smiling!''"
    by (simp_all add: happy_shown_eq)
  from failure_leaves_result [of ?c 200 "Error failure_message" happy_shown 2] aw
  have f: "analysisResult ?w' = analysisResult happy_shown"
    "lastSpokenMessage ?w' = lastSpokenMessage happy_shown"
    "error ?w' = Some (message (Error failure_message))"
    "isAnalyzing ?w' = False" "isLoading ?w' = False"
    by blast+
  from f(3) have e: "error ?w' = Some failure_message" by (simp only: message.simps)
  from f(1,2) st have r: "analysisResult ?w' = Some happy_result" "lastSpokenMessage ?w' = ''Keep smiling!''"
    by (simp_all only:)
  from aw r e f(4,5) show ?thesis by blast
qed

text \<open>
  C3. The interval's callback keeps calling the \<open>captureAndAnalyze\<close> of the render in
  which analysis started, so each result's message is compared with the
  \<open>lastSpokenMessage\<close> of that render. Here the first result's message was spoken and
  stored; the second result has the same message, and it is spoken again.
\<close>

theorem equal_messages_spoken_twice:
  "lastSpokenMessage happy_shown = ''Keep smiling!''
   \<and> spoken happy_shown = [''Keep smiling!'']
   \<and> encouragingMessage happy_result = ''Keep smiling!''
   \<and> spoken (step (Settled 2 200 (Inr happy_result)) happy_shown) = [''Keep smiling!'', ''Keep smiling!'']"
  by (simp add: happy_shown_eq app_defs happy_result_def)

section \<open>The presentation\<close>

lemma emotionConfig_total:
  "\<exists>th. map_of emotionConfig e = Some th \<and> gradient th \<noteq> [] \<and> icon th \<noteq> [] \<and> title th \<noteq> []"
  by (cases e) (simp_all add: emotionConfig_def)

lemma emotionVisualEffects_total: "\<exists>b. map_of emotionVisualEffects e = Some b"
  by (cases e) (simp_all add: emotionVisualEffects_def)

lemma Emotion_value_not_empty: "Emotion_value e \<noteq> []"
  by (cases e) simp_all

lemma currentEmotion_result: "analysisResult w = Some r \<Longrightarrow> currentEmotion w = emotion r"
  by (simp add: currentEmotion_def Emotion_value_not_empty)

lemma currentEmotion_none: "analysisResult w = None \<Longrightarrow> currentEmotion w = NEUTRAL"
  by (simp add: currentEmotion_def)

text \<open>
  C8. Every member of \<open>Emotion\<close> has an entry in \<open>emotionConfig\<close> with a gradient, an
  icon and a title, so the theme of a render is defined for every state; without a
  result it is the \<open>NEUTRAL\<close> entry, with one it is the entry of the result's emotion.
  While analysing with a result, the border and the filter are those of the result's
  emotion (no filter when the table has none); in every other state the border is the
  \<open>NEUTRAL\<close> one and the filter is empty.
\<close>

theorem theme_of_state:
  "(\<forall>e. \<exists>th. map_of emotionConfig e = Some th \<and> gradient th \<noteq> [] \<and> icon th \<noteq> [] \<and> title th \<noteq> [])
   \<and> (\<exists>th. current_theme w = Some th)
   \<and> (analysisResult w = None \<longrightarrow> current_theme w = map_of emotionConfig NEUTRAL)
   \<and> (\<forall>r. analysisResult w = Some r \<longrightarrow> current_theme w = map_of emotionConfig (emotion r))
   \<and> (\<forall>r. isAnalyzing w \<and> analysisResult w = Some r \<longrightarrow>
         visualEffectClass w = map_of emotionVisualEffects (emotion r) \<and>
         (\<exists>b. visualEffectClass w = Some b) \<and>
         filterEffectClass w = (case map_of emotionFilterEffects (emotion r) of None \<Rightarrow> [] | Some f \<Rightarrow> f))
   \<and> (\<not> (isAnalyzing w \<and> analysisResult w \<noteq> None) \<longrightarrow>
         visualEffectClass w = map_of emotionVisualEffects NEUTRAL \<and>
         visualEffectClass w = Some ''border-transparent'' \<and>
         filterEffectClass w = [])"
proof (intro conjI allI impI)
  fix e show "\<exists>th. map_of emotionConfig e = Some th \<and> gradient th \<noteq> [] \<and> icon th \<noteq> [] \<and> title th \<noteq> []"
    by (rule emotionConfig_total)
next
  from emotionConfig_total [of "currentEmotion w"]
  show "\<exists>th. current_theme w = Some th" by (auto simp: current_theme_def)
next
  assume "analysisResult w = None"
  then show "current_theme w = map_of emotionConfig NEUTRAL"
    by (simp add: current_theme_def currentEmotion_none)
next
  fix r assume "analysisResult w = Some r"
  then show "current_theme w = map_of emotionConfig (emotion r)"
    by (simp add: current_theme_def currentEmotion_result)
next
  fix r assume a: "isAnalyzing w \<and> analysisResult w = Some r"
  then show "visualEffectClass w = map_of emotionVisualEffects (emotion r)"
    by (simp add: visualEffectClass_def currentEmotion_result)
  with emotionVisualEffects_total [of "emotion r"]
  show "\<exists>b. visualEffectClass w = Some b" by simp
  from a show "filterEffectClass w = (case map_of emotionFilterEffects (emotion r) of None \<Rightarrow> [] | Some f \<Rightarrow> f)"
    by (simp add: filterEffectClass_def currentEmotion_result)
next
  assume a: "\<not> (isAnalyzing w \<and> analysisResult w \<noteq> None)"
  then show "visualEffectClass w = map_of emotionVisualEffects NEUTRAL"
    by (auto simp: visualEffectClass_def)
  then show "visualEffectClass w = Some ''border-transparent''"
    by (simp add: emotionVisualEffects_def)
  from a show "filterEffectClass w = []"
    by (auto simp: filterEffectClass_def)
qed

lemma sad_shown_state: "isAnalyzing sad_shown \<and> analysisResult sad_shown = Some sad_result"
proof -
  have "map_of (awaited first_call_awaited) 1 = Some \<lparr> c_isLoading = False, c_lastSpokenMessage = [] \<rparr>"
    and "isAnalyzing first_call_awaited"
    by (simp_all add: first_call_awaited_eq)
  then show ?thesis
    by (simp add: sad_shown_def commit_frame resumed_success)
qed

lemma sad_stopped_state: "\<not> isAnalyzing sad_stopped \<and> analysisResult sad_stopped = Some sad_result"
  using sad_shown_state by (simp add: sad_stopped_def commit_frame handleStop_def)

theorem theme_of_state_witness:
  "current_theme (mounted True) =
      Some \<lparr> gradient = ''from-slate-500 via-gray-600 to-slate-700'',
             icon = [0xF8FF, 0xFC, 0xF2, 0xEA], title = ''Calm & Collected'' \<rparr>
   \<and> visualEffectClass (mounted True) = Some ''border-transparent''
   \<and> filterEffectClass (mounted True) = []
   \<and> visualEffectClass sad_shown = Some ''border-blue-400/30''
   \<and> filterEffectClass sad_shown = ''saturate-[.75] brightness-90''
   \<and> visualEffectClass sad_stopped = Some ''border-transparent''
   \<and> filterEffectClass sad_stopped = []"
proof -
  have none: "analysisResult (mounted True) = None"
    "\<not> (isAnalyzing (mounted True) \<and> analysisResult (mounted True) \<noteq> None)"
    by (simp_all add: mounted_def)
  from sad_stopped_state
  have stopped: "\<not> (isAnalyzing sad_stopped \<and> analysisResult sad_stopped \<noteq> None)"
    by simp
  from theme_of_state [of "mounted True"] none
  have a: "current_theme (mounted True) = map_of emotionConfig NEUTRAL"
    "visualEffectClass (mounted True) = Some ''border-transparent''"
    "filterEffectClass (mounted True) = []"
    by blast+
  from theme_of_state [of sad_shown] sad_shown_state
  have b: "visualEffectClass sad_shown = map_of emotionVisualEffects (emotion sad_result)"
    "filterEffectClass sad_shown =
       (case map_of emotionFilterEffects (emotion sad_result) of None \<Rightarrow> [] | Some f \<Rightarrow> f)"
    by blast+
  from theme_of_state [of sad_stopped] stopped
  have c: "visualEffectClass sad_stopped = Some ''border-transparent''"
    "filterEffectClass sad_stopped = []"
    by blast+
  from a b c show ?thesis
    by (simp add: emotionConfig_def emotionVisualEffects_def emotionFilterEffects_def sad_result_def)
qed

end
